theory Spec2Isabelle
  imports Complex_Main "HOL-Library.Word"
begin

section \<open>Errors\<close>

text \<open>
  Go's \<open>error\<close> values, as far as the idempotency code tells them apart: the sentinels
  it compares against (\<open>redis.Nil\<close>, \<open>gorm.ErrRecordNotFound\<close>, \<open>gorm.ErrInvalidData\<close>),
  the validator's error type, plain messages, and \<open>fmt.Errorf("...: %w", err)\<close>.
\<close>

datatype error =
    RedisNil
  | ErrRecordNotFound
  | ErrInvalidData
  | ValidationErrors string
  | Errorf string
  | Wrap string error

fun Error :: "error \<Rightarrow> string" where
  "Error RedisNil = ''redis: nil''"
| "Error ErrRecordNotFound = ''record not found''"
| "Error ErrInvalidData = ''unsupported data''"
| "Error (ValidationErrors s) = s"
| "Error (Errorf s) = s"
| "Error (Wrap m e) = m @ '': '' @ Error e"

text \<open>\<open>errors.Is\<close>: the error itself or anything it wraps.\<close>

fun errors_Is :: "error \<Rightarrow> error \<Rightarrow> bool" where
  "errors_Is (Wrap m e) target = (Wrap m e = target \<or> errors_Is e target)"
| "errors_Is e target = (e = target)"

text \<open>\<open>errors.As(err, &ve)\<close> for \<open>validator.ValidationErrors\<close>.\<close>

fun errors_As_ValidationErrors :: "error \<Rightarrow> bool" where
  "errors_As_ValidationErrors (ValidationErrors s) = True"
| "errors_As_ValidationErrors (Wrap m e) = errors_As_ValidationErrors e"
| "errors_As_ValidationErrors e = False"


section \<open>Fingerprint hasher (pkg/util/hash-util/sha256.go)\<close>

text \<open>
  A byte slice is a \<open>string\<close>: an Isabelle \<open>char\<close> is one byte. \<open>sha256.Sum256\<close> belongs
  to Go's standard library and is the parameter \<open>sum256\<close> here; its result type, the array
  \<open>[32]byte\<close>, is a function from the index to the byte, read at the indices 0 to 31 only.
\<close>

type_synonym byte32 = "nat \<Rightarrow> 8 word"

definition hextable :: string where
  "hextable = ''0123456789abcdef''"

text \<open>\<open>hex.EncodeToString\<close>: \<open>hextable[v>>4]\<close> then \<open>hextable[v&0x0f]\<close> for each byte.\<close>

definition EncodeToString :: "8 word list \<Rightarrow> string" where
  "EncodeToString src =
     concat (map (\<lambda>v. [hextable ! (unat v div 16), hextable ! (unat v mod 16)]) src)"

text \<open>\<open>h[:]\<close>, the 32 bytes of the array.\<close>

definition slice_all :: "byte32 \<Rightarrow> 8 word list" where
  "slice_all h = map h [0..<32]"

definition Hash256Bytes :: "(string \<Rightarrow> byte32) \<Rightarrow> string \<Rightarrow> error + string" where
  "Hash256Bytes sum256 b =
     (if length b = 0 then Inl (Errorf ''input byte slice cannot be empty'')
      else Inr (EncodeToString (slice_all (sum256 b))))"


section \<open>Entities\<close>

text \<open>
  Instants (\<open>time.Time\<close>) and durations (\<open>time.Duration\<close>) are nanosecond counts; an instant
  counts from the Unix epoch, and \<open>zero_time\<close> is Go's zero \<open>time.Time\<close> (1 January of year 1).
\<close>

definition zero_time :: int where
  "zero_time = - 62135596800 * 1000000000"

text \<open>internal/entity/idempotency-cache.go\<close>

record IdempotencyCache =
  Key :: string
  BodyHash :: string
  ResponsePayload :: string
  CreatedAt :: int
  UpdatedAt :: int
  ExpiredAt :: int

text \<open>The zero value \<open>entity.IdempotencyCache{}\<close>.\<close>

definition IdempotencyCache_zero :: IdempotencyCache where
  "IdempotencyCache_zero =
     \<lparr>Key = [], BodyHash = [], ResponsePayload = [],
      CreatedAt = zero_time, UpdatedAt = zero_time, ExpiredAt = zero_time\<rparr>"

text \<open>pkg/context-data/meta-context/idem-competency.go\<close>

record IdemCompetencyMeta =
  meta_Key :: string
  meta_BodyHash :: string
  meta_ResponsePayload :: string
  meta_StatusCode :: int

text \<open>
  A request context is the metadata stored in it, if any:
  \<open>InjectIdemCompetencyMeta\<close> stores, \<open>ExtractIdemCompetencyMeta\<close> reads with its \<open>ok\<close> flag.
\<close>

type_synonym ctx = "IdemCompetencyMeta option"

definition InjectIdemCompetencyMeta :: "ctx \<Rightarrow> IdemCompetencyMeta \<Rightarrow> ctx" where
  "InjectIdemCompetencyMeta ctx meta = Some meta"

definition ExtractIdemCompetencyMeta :: "ctx \<Rightarrow> IdemCompetencyMeta option" where
  "ExtractIdemCompetencyMeta ctx = ctx"


text \<open>
  Modelled from the spec: the consumer entity and its status constant are not among the
  sources. Of a consumer, the identifier and the status are used; the seed data and the
  handler's answers name the status \<open>active\<close>.
\<close>

record Consumer =
  consumer_ID :: string
  consumer_Status :: string

definition ConsumerStatusActive :: string where
  "ConsumerStatusActive = ''active''"

text \<open>
  The transaction entity. \<open>Amount\<close> is a \<open>float64\<close> in the source; only its being carried
  along matters here, so it is a rational. The pointer fields are options.
\<close>

record Transaction =
  ID :: string
  IdempotencyCacheKey :: string
  Type :: string
  Amount :: rat
  Status :: string
  ConsumerID :: string
  txn_Consumer :: "Consumer option"
  txn_CreatedAt :: "int option"
  txn_UpdatedAt :: "int option"

definition TransactionStatusPending :: string where
  "TransactionStatusPending = ''pending''"


section \<open>The stores\<close>

text \<open>
  The fast cache. \<open>client\<close> says whether \<open>cache.GetRedisClient()\<close> yields a client;
  \<open>get_failure\<close> and \<open>set_failure\<close> are what the server answers to GET and SET when it
  does not serve them; an entry carries the instant at which it expires, if it does.
\<close>

record RedisEntry =
  entry_value :: string
  entry_expires :: "int option"

record Redis =
  client :: bool
  get_failure :: "error option"
  set_failure :: "error option"
  entries :: "string \<Rightarrow> RedisEntry option"

text \<open>
  The durable store: its three tables, in insertion order. A transaction handle
  (\<open>tx *gorm.DB\<close>) is the rows it has inserted and not yet committed.
\<close>

record Database =
  consumers :: "Consumer list"
  transactions :: "Transaction list"
  idempotency_cache :: "IdempotencyCache list"

text \<open>
  Everything outside the process that a request touches: the two stores, whether
  \<open>database.GetPostgres()\<close> yields a handle, the identifier the database draws for the
  next row (\<open>gen_random_uuid()\<close>), and the instants at which the request reaches its steps,
  in the order in which it reaches them: the cache serves the GET of the lookup; gorm
  stamps the transaction row it inserts; the record phase reads \<open>time.Now()\<close> (\<open>clock\<close>);
  gorm stamps the idempotency record it inserts; the cache serves the SET. The instants
  are inputs; in an execution each is later than the one before.
\<close>

record World =
  redis :: Redis
  postgres_up :: bool
  postgres :: Database
  instant_GET :: int
  instant_insert_transaction :: int
  clock :: int
  instant_insert_record :: int
  instant_SET :: int
  gen_random_uuid :: string

text \<open>
  The libraries the code calls and that are not part of the repository:
  \<open>crypto/sha256\<close>, \<open>encoding/json\<close> (at the types it is used at), gin's body binding and
  the struct validator. Every theorem below holds for all of them.
\<close>

record 'j Lib =
  Sum256 :: "string \<Rightarrow> byte32"
  Unmarshal_IdempotencyCache :: "string \<Rightarrow> error + IdempotencyCache"
  Unmarshal_any :: "string \<Rightarrow> error + 'j"
  Marshal_IdempotencyCache :: "IdempotencyCache \<Rightarrow> error + string"
  Marshal_Transaction :: "Transaction \<Rightarrow> error + string"
  BindJSON_Transaction :: "string \<Rightarrow> error + Transaction"
  Validate :: "Transaction \<Rightarrow> error option"


section \<open>Redis utilities (pkg/util/redis-util/object.go)\<close>

text \<open>
  \<open>client.Get(ctx, key).Bytes()\<close>, served at the instant \<open>now\<close>: a missing or expired key
  answers \<open>redis.Nil\<close>.
\<close>

definition redis_Get :: "Redis \<Rightarrow> int \<Rightarrow> string \<Rightarrow> error + string" where
  "redis_Get r now key =
     (case get_failure r of
        Some err \<Rightarrow> Inl err
      | None \<Rightarrow>
          (case entries r key of
             None \<Rightarrow> Inl RedisNil
           | Some en \<Rightarrow>
               (case entry_expires en of
                  None \<Rightarrow> Inr (entry_value en)
                | Some deadline \<Rightarrow> if deadline \<le> now then Inl RedisNil else Inr (entry_value en))))"

text \<open>
  \<open>client.Set(ctx, key, data, ttl).Err()\<close>: a positive \<open>ttl\<close> sets the expiry, which the
  server counts from the instant \<open>now\<close> at which it executes the SET.
\<close>

definition redis_Set :: "Redis \<Rightarrow> int \<Rightarrow> string \<Rightarrow> string \<Rightarrow> int \<Rightarrow> error + Redis" where
  "redis_Set r now key data ttl =
     (case set_failure r of
        Some err \<Rightarrow> Inl err
      | None \<Rightarrow>
          Inr (r\<lparr>entries := (entries r)(key \<mapsto>
                 \<lparr>entry_value = data,
                  entry_expires = (if 0 < ttl then Some (now + ttl) else None)\<rparr>)\<rparr>))"

definition GetJSON :: "'j Lib \<Rightarrow> World \<Rightarrow> string \<Rightarrow> error + IdempotencyCache" where
  "GetJSON lib w key =
     (if \<not> client (redis w) then Inl (Errorf ''redis client is nil'')
      else
        (case redis_Get (redis w) (instant_GET w) key of
           Inl err \<Rightarrow> Inl err
         | Inr data \<Rightarrow>
             (case Unmarshal_IdempotencyCache lib data of
                Inl err \<Rightarrow> Inl err
              | Inr result \<Rightarrow> Inr result)))"

definition SetJSON :: "'j Lib \<Rightarrow> string \<Rightarrow> IdempotencyCache \<Rightarrow> int \<Rightarrow> World \<Rightarrow> error + World" where
  "SetJSON lib key v ttl w =
     (if \<not> client (redis w) then Inl (Errorf ''redis client is nil'')
      else
        (case Marshal_IdempotencyCache lib v of
           Inl err \<Rightarrow> Inl err
         | Inr data \<Rightarrow>
             (case redis_Set (redis w) (instant_SET w) key data ttl of
                Inl err \<Rightarrow> Inl err
              | Inr r \<Rightarrow> Inr (w\<lparr>redis := r\<rparr>))))"


section \<open>Responses\<close>

text \<open>
  Modelled from the spec: pkg/util/http-util is not among the sources. Each helper writes
  the response envelope with the status code its name says (section 6 of the
  specification: 200, 201, 400, 404, 405, 409, 500), the message, the error text and the
  data it is given; the envelope's path and timestamp are left out.
\<close>

datatype 'j Data = NoData | Decoded 'j | Entity Transaction

record 'j HttpResponse =
  status :: nat
  message :: string
  error_text :: string
  data :: "'j Data"

definition Success :: "string \<Rightarrow> 'j Data \<Rightarrow> 'j HttpResponse" where
  "Success msg d = \<lparr>status = 200, message = msg, error_text = [], data = d\<rparr>"

definition Created :: "string \<Rightarrow> 'j Data \<Rightarrow> 'j HttpResponse" where
  "Created msg d = \<lparr>status = 201, message = msg, error_text = [], data = d\<rparr>"

definition BadRequest :: "string \<Rightarrow> string \<Rightarrow> 'j HttpResponse" where
  "BadRequest msg err = \<lparr>status = 400, message = msg, error_text = err, data = NoData\<rparr>"

definition NotFound :: "string \<Rightarrow> string \<Rightarrow> 'j HttpResponse" where
  "NotFound msg err = \<lparr>status = 404, message = msg, error_text = err, data = NoData\<rparr>"

definition MethodNotAllowed :: "string \<Rightarrow> string \<Rightarrow> 'j HttpResponse" where
  "MethodNotAllowed msg err = \<lparr>status = 405, message = msg, error_text = err, data = NoData\<rparr>"

definition Conflict :: "string \<Rightarrow> string \<Rightarrow> 'j HttpResponse" where
  "Conflict msg err = \<lparr>status = 409, message = msg, error_text = err, data = NoData\<rparr>"

definition InternalServerError :: "string \<Rightarrow> string \<Rightarrow> 'j HttpResponse" where
  "InternalServerError msg err = \<lparr>status = 500, message = msg, error_text = err, data = NoData\<rparr>"


section \<open>The middleware (pkg/middleware/idempotency, Enforce)\<close>

text \<open>
  What the middleware reads of a request: the method, the headers (\<open>c.GetHeader\<close> answers
  the empty string for an absent header) and the result of \<open>c.GetRawData()\<close>.
\<close>

record Request =
  Method :: string
  GetHeader :: "string \<Rightarrow> string"
  GetRawData :: "error + string"

text \<open>
  The middleware either writes a response and calls \<open>c.Abort()\<close>, or calls \<open>c.Next()\<close>
  with the request context it has prepared.
\<close>

datatype 'j Outcome = Abort "'j HttpResponse" | Next ctx

definition Enforce :: "(string \<Rightarrow> string) \<Rightarrow> 'j Lib \<Rightarrow> World \<Rightarrow> ctx \<Rightarrow> Request \<Rightarrow> 'j Outcome" where
  "Enforce Getenv lib w ctx0 req =
     (let idemEnabled = Getenv ''IDEMPOTENCY_ENABLED'';
          idemKeyHdr = Getenv ''IDEMPOTENCY_KEY_HEADER'';
          idemPrefix = Getenv ''IDEMPOTENCY_PREFIX''
      in
      if idemEnabled = [] \<or> idemKeyHdr = [] \<or> idemPrefix = [] then
        Abort (InternalServerError ''Internal Server Error''
          ''Idempotency enabled, key header, or prefix environment variables are not set'')
      else if idemEnabled \<noteq> ''TRUE'' then Next ctx0
      else if Method req \<noteq> ''POST'' \<and> Method req \<noteq> ''PUT'' \<and> Method req \<noteq> ''DELETE'' then
        Abort (MethodNotAllowed ''Method Not Allowed''
          ''Idempotency middleware only supports POST, PUT, or DELETE methods'')
      else
        (let idemKey = GetHeader req idemKeyHdr in
         if idemKey = [] then
           Abort (BadRequest ''Bad Request''
             (''Idempotency key header '' @ [CHR 0x27] @ idemKeyHdr @ [CHR 0x27] @ '' is required''))
         else
           (case GetRawData req of
              Inl err \<Rightarrow>
                Abort (InternalServerError ''Internal Server Error'' ''Failed to read request body'')
            | Inr bodyBytes \<Rightarrow>
                (case Hash256Bytes (Sum256 lib) bodyBytes of
                   Inl err \<Rightarrow>
                     Abort (InternalServerError ''Internal Server Error''
                       ''Failed to hash request body'')
                 | Inr bodyHash \<Rightarrow>
                     (case GetJSON lib w (idemPrefix @ idemKey) of
                        Inl err \<Rightarrow>
                          if err \<noteq> RedisNil then
                            Abort (InternalServerError ''Internal Server Error'' (Error err))
                          else
                            Next (InjectIdemCompetencyMeta ctx0
                              \<lparr>meta_Key = idemKey, meta_BodyHash = bodyHash,
                               meta_ResponsePayload = [], meta_StatusCode = 0\<rparr>)
                      | Inr cachedData \<Rightarrow>
                          if BodyHash cachedData \<noteq> bodyHash then
                            Abort (Conflict ''Conflict''
                              ''Request with the same Idempotency-Key but different body has already been processed'')
                          else if ResponsePayload cachedData \<noteq> [] then
                            (case Unmarshal_any lib (ResponsePayload cachedData) of
                               Inl err \<Rightarrow>
                                 Abort (InternalServerError ''Internal Server Error''
                                   ''Failed to unmarshal cached response payload'')
                             | Inr respPayload \<Rightarrow>
                                 Abort (Success ''Request already processed'' (Decoded respPayload)))
                          else Abort (Success ''Request already processed'' NoData))))))"


section \<open>Time-to-live arithmetic\<close>

text \<open>
  \<open>strconv.Atoi\<close> of Go's standard library, for a 64-bit \<open>int\<close>: an optional sign, then
  decimal digits only, and the value within the range of \<open>int64\<close>.
\<close>

fun parse_digits :: "string \<Rightarrow> int \<Rightarrow> int option" where
  "parse_digits [] n = Some n"
| "parse_digits (ch # s) n =
     (if (48::nat) \<le> of_char ch \<and> of_char ch \<le> (57::nat)
      then parse_digits s (n * 10 + (int (of_char ch) - 48))
      else None)"

definition Atoi :: "string \<Rightarrow> error + int" where
  "Atoi s0 =
     (let neg = (s0 \<noteq> [] \<and> hd s0 = CHR ''-'');
          s = (if s0 \<noteq> [] \<and> (hd s0 = CHR ''-'' \<or> hd s0 = CHR ''+'') then tl s0 else s0)
      in
      if s = [] then Inl (Errorf ''strconv.Atoi: invalid syntax'')
      else
        (case parse_digits s 0 of
           None \<Rightarrow> Inl (Errorf ''strconv.Atoi: invalid syntax'')
         | Some n \<Rightarrow>
             (let v = (if neg then - n else n) in
              if v < - (2 ^ 63) \<or> 2 ^ 63 \<le> v then Inl (Errorf ''strconv.Atoi: value out of range'')
              else Inr v)))"

text \<open>The constant of internal/service/idempotency-cache.go and \<open>time.Hour\<close>.\<close>

definition ttl_hour :: int where
  "ttl_hour = 24"

definition Hour :: int where
  "Hour = 3600000000000"

text \<open>Arithmetic on \<open>time.Duration\<close> is arithmetic on \<open>int64\<close>: it wraps.\<close>

definition wrap64 :: "int \<Rightarrow> int" where
  "wrap64 x = (x + 2 ^ 63) mod 2 ^ 64 - 2 ^ 63"

text \<open>\<open>t.Add(d)\<close>, away from the ends of the representable instants.\<close>

definition Add :: "int \<Rightarrow> int \<Rightarrow> int" where
  "Add t d = t + d"


section \<open>Durable transactions and repositories\<close>

definition no_rows :: Database where
  "no_rows = \<lparr>consumers = [], transactions = [], idempotency_cache = []\<rparr>"

text \<open>What a statement run through the handle \<open>tx\<close> sees: the committed rows and its own.\<close>

definition visible :: "World \<Rightarrow> Database \<Rightarrow> Database" where
  "visible w tx =
     \<lparr>consumers = consumers (postgres w) @ consumers tx,
      transactions = transactions (postgres w) @ transactions tx,
      idempotency_cache = idempotency_cache (postgres w) @ idempotency_cache tx\<rparr>"

text \<open>
  \<open>db.Transaction(func(tx *gorm.DB) error {...})\<close> on the global handle: a new transaction;
  when the closure returns an error its rows are dropped (rollback), otherwise they are
  committed, and the commit itself succeeds. The closure may also act on the world outside
  its handle (the cache, or another transaction on the global handle).
\<close>

definition db_Transaction ::
  "(Database \<Rightarrow> World \<Rightarrow> (error + 'a) \<times> Database \<times> World) \<Rightarrow> World \<Rightarrow> (error + 'a) \<times> World" where
  "db_Transaction fc w =
     (case fc no_rows w of
        (Inl err, tx, w') \<Rightarrow> (Inl err, w')
      | (Inr v, tx, w') \<Rightarrow> (Inr v, w'\<lparr>postgres := visible w' tx\<rparr>))"

text \<open>
  internal/repository: \<open>tx.First\<close> answers \<open>gorm.ErrRecordNotFound\<close> and the zero entity when
  no row matches. Of the database's reasons to refuse an insert, the primary keys and the
  unique column \<open>idempotency_cache_key\<close> are modelled; the insert fills the identifier
  that is still unset and stamps the timestamps that are still unset (\<open>autoCreateTime\<close>,
  \<open>autoUpdateTime\<close>) with the instant of the insert.
\<close>

definition repo_GetIdempotencyCacheByKey ::
  "Database \<Rightarrow> World \<Rightarrow> string \<Rightarrow> IdempotencyCache \<times> error option" where
  "repo_GetIdempotencyCacheByKey tx w key =
     (case find (\<lambda>r. Key r = key) (idempotency_cache (visible w tx)) of
        None \<Rightarrow> (IdempotencyCache_zero, Some ErrRecordNotFound)
      | Some idempotencyCache \<Rightarrow> (idempotencyCache, None))"

definition repo_CreateIdempotencyCache ::
  "Database \<Rightarrow> World \<Rightarrow> IdempotencyCache \<Rightarrow> (error + IdempotencyCache) \<times> Database" where
  "repo_CreateIdempotencyCache tx w key =
     (case find (\<lambda>r. Key r = Key key) (idempotency_cache (visible w tx)) of
        Some r \<Rightarrow>
          (Inl (Wrap ''failed to create idempotency cache''
                  (Errorf ''duplicate key value violates unique constraint'')), tx)
      | None \<Rightarrow>
          (let row = key
                 \<lparr>CreatedAt :=
                    (if CreatedAt key = zero_time then instant_insert_record w else CreatedAt key),
                  UpdatedAt :=
                    (if UpdatedAt key = zero_time then instant_insert_record w else UpdatedAt key)\<rparr>
           in (Inr row, tx\<lparr>idempotency_cache := idempotency_cache tx @ [row]\<rparr>)))"

definition repo_CreateTransaction ::
  "Database \<Rightarrow> World \<Rightarrow> Transaction \<Rightarrow> (error + Transaction) \<times> Database" where
  "repo_CreateTransaction tx w t =
     (let newID = (if ID t = [] then gen_random_uuid w else ID t) in
      case find (\<lambda>r. ID r = newID \<or> IdempotencyCacheKey r = IdempotencyCacheKey t)
             (transactions (visible w tx)) of
        Some r \<Rightarrow>
          (Inl (Wrap ''failed to create transaction''
                  (Errorf ''duplicate key value violates unique constraint'')), tx)
      | None \<Rightarrow>
          (let row = t
                 \<lparr>ID := newID,
                  txn_CreatedAt :=
                    (case txn_CreatedAt t of
                       None \<Rightarrow> Some (instant_insert_transaction w)
                     | Some c \<Rightarrow> Some c),
                  txn_UpdatedAt :=
                    (case txn_UpdatedAt t of
                       None \<Rightarrow> Some (instant_insert_transaction w)
                     | Some u \<Rightarrow> Some u)\<rparr>
           in (Inr row, tx\<lparr>transactions := transactions tx @ [row]\<rparr>)))"

text \<open>
  Modelled from the spec: the consumer service is not among the sources. A consumer that
  does not exist is answered with \<open>gorm.ErrRecordNotFound\<close>, which the handler turns into
  404 (scenario D of the specification).
\<close>

definition GetConsumerByID :: "World \<Rightarrow> string \<Rightarrow> error + Consumer" where
  "GetConsumerByID w cid =
     (if \<not> postgres_up w then Inl (Errorf ''database connection is nil'')
      else
        (case find (\<lambda>c. consumer_ID c = cid) (consumers (postgres w)) of
           None \<Rightarrow> Inl ErrRecordNotFound
         | Some consumer \<Rightarrow> Inr consumer))"


section \<open>The record phase (internal/service)\<close>

text \<open>
  \<open>idempotencyCacheService.CreateIdempotencyCache\<close>; \<open>Marshal\<close> is \<open>json.Marshal\<close> at the type
  of the response payload.
\<close>

definition CreateIdempotencyCache ::
  "(string \<Rightarrow> string) \<Rightarrow> 'j Lib \<Rightarrow> ('p \<Rightarrow> error + string) \<Rightarrow> ctx \<Rightarrow> 'p \<Rightarrow> World
     \<Rightarrow> (error + IdempotencyCache) \<times> World" where
  "CreateIdempotencyCache Getenv lib Marshal ctx responsePayload w =
     (if \<not> postgres_up w then (Inl (Errorf ''database connection is nil''), w)
      else
        (case ExtractIdemCompetencyMeta ctx of
           None \<Rightarrow> (Inl (Errorf ''idempotency metadata not found in context''), w)
         | Some meta \<Rightarrow>
             (let idemKey = meta_Key meta; bodyHash = meta_BodyHash meta in
              case Marshal responsePayload of
                Inl err \<Rightarrow> (Inl (Wrap ''failed to marshal response payload'' err), w)
              | Inr respStr \<Rightarrow>
                  (let now = clock w;
                       idemData = \<lparr>Key = idemKey, BodyHash = bodyHash, ResponsePayload = respStr,
                                   CreatedAt = now, UpdatedAt = zero_time, ExpiredAt = zero_time\<rparr>
                   in
                   case Atoi (Getenv ''IDEMPOTENCY_TTL_HOURS'') of
                     Inl err \<Rightarrow> (Inl (Wrap ''invalid Idempotency TTL hours'' err), w)
                   | Inr ttl \<Rightarrow>
                       (let idemData = idemData\<lparr>ExpiredAt := Add now (wrap64 (ttl * Hour))\<rparr> in
                        db_Transaction (\<lambda>tx w.
                          (let (existingIdem, err) = repo_GetIdempotencyCacheByKey tx w idemKey in
                           case (case err of
                                   None \<Rightarrow> None
                                 | Some e \<Rightarrow> if errors_Is e ErrRecordNotFound then None else Some e) of
                             Some e \<Rightarrow> (Inl e, tx, w)
                           | None \<Rightarrow>
                               if Key existingIdem \<noteq> [] then
                                 (Inl (Errorf (''idempotency key '' @ idemKey @ '' already exists'')), tx, w)
                               else
                                 (case repo_CreateIdempotencyCache tx w idemData of
                                    (Inl err, tx') \<Rightarrow> (Inl err, tx', w)
                                  | (Inr createdIdemData, tx') \<Rightarrow>
                                      (let ttl = ttl_hour * Hour;
                                           idemPrefix = Getenv ''IDEMPOTENCY_PREFIX'';
                                           redisKey = idemPrefix @ idemKey
                                       in
                                       case SetJSON lib redisKey createdIdemData ttl w of
                                         Inl err \<Rightarrow>
                                           (Inl (Wrap ''failed to set idempotency key in Redis'' err), tx', w)
                                       | Inr w' \<Rightarrow> (Inr createdIdemData, tx', w'))))) w)))))"

text \<open>\<open>transactionService.CreateTransaction\<close>\<close>

definition CreateTransaction ::
  "(string \<Rightarrow> string) \<Rightarrow> 'j Lib \<Rightarrow> ctx \<Rightarrow> Transaction \<Rightarrow> World \<Rightarrow> (error + Transaction) \<times> World" where
  "CreateTransaction Getenv lib ctx t0 w =
     (if \<not> postgres_up w then (Inl (Errorf ''database connection is nil''), w)
      else
        (case ExtractIdemCompetencyMeta ctx of
           None \<Rightarrow> (Inl (Errorf ''idempotency meta not found in context''), w)
         | Some meta \<Rightarrow>
             (let t = t0\<lparr>IdempotencyCacheKey := meta_Key meta\<rparr> in
              case Validate lib t of
                Some err \<Rightarrow> (Inl err, w)
              | None \<Rightarrow>
                  db_Transaction (\<lambda>tx w.
                    if ConsumerID t = [] then (Inl (Errorf ''consumer ID is required''), tx, w)
                    else
                      (case GetConsumerByID w (ConsumerID t) of
                         Inl err \<Rightarrow> (Inl err, tx, w)
                       | Inr consumer \<Rightarrow>
                           if consumer_Status consumer \<noteq> ConsumerStatusActive then
                             (Inl ErrInvalidData, tx, w)
                           else
                             (let t = t\<lparr>Status := TransactionStatusPending\<rparr> in
                              case repo_CreateTransaction tx w t of
                                (Inl err, tx') \<Rightarrow> (Inl err, tx', w)
                              | (Inr createdTransaction, tx') \<Rightarrow>
                                  (case CreateIdempotencyCache Getenv lib (Marshal_Transaction lib)
                                          ctx createdTransaction w of
                                     (Inl err, w') \<Rightarrow> (Inl err, tx', w')
                                   | (Inr created, w') \<Rightarrow> (Inr createdTransaction, tx', w'))))) w)))"


section \<open>The handler and the handler chain\<close>

text \<open>
  \<open>TransactionHandler.CreateTransaction\<close> (internal/handler/transaction.go).
  \<open>BadRequestMap\<close> answers 400 as \<open>BadRequest\<close> does, with the validation errors as a map.
\<close>

definition handler_CreateTransaction ::
  "(string \<Rightarrow> string) \<Rightarrow> 'j Lib \<Rightarrow> ctx \<Rightarrow> Request \<Rightarrow> World \<Rightarrow> 'j HttpResponse \<times> World" where
  "handler_CreateTransaction Getenv lib ctx req w =
     (case (case GetRawData req of
              Inl err \<Rightarrow> Inl err
            | Inr body \<Rightarrow> BindJSON_Transaction lib body) of
        Inl err \<Rightarrow> (BadRequest ''Invalid request body'' (Error err), w)
      | Inr transaction \<Rightarrow>
          (case CreateTransaction Getenv lib ctx transaction w of
             (Inl err, w') \<Rightarrow>
               (if errors_As_ValidationErrors err then
                  BadRequest ''Failed to create transaction'' (Error err)
                else if errors_Is err ErrRecordNotFound then
                  NotFound ''Consumer not found'' ''No consumer found with the given ID''
                else if errors_Is err ErrInvalidData then
                  BadRequest ''Invalid transaction data''
                    ''Transaction data is invalid, this could be due to missing required fields or incorrect data types''
                else InternalServerError ''Failed to create transaction'' (Error err), w')
           | (Inr createdTransaction, w') \<Rightarrow>
               (Created ''Transaction created successfully'' (Entity createdTransaction), w')))"

text \<open>
  A request served by the chain [\<open>Enforce()\<close>, handler]: the response written, whether the
  handler ran (\<open>c.Abort()\<close> keeps it from running, \<open>c.Next()\<close> runs it), and the stores
  afterwards. An incoming request's context carries no idempotency metadata.
\<close>

record 'j Served =
  response :: "'j HttpResponse"
  handler_invoked :: bool
  world_after :: World

definition serve ::
  "(string \<Rightarrow> string) \<Rightarrow> 'j Lib \<Rightarrow> (ctx \<Rightarrow> Request \<Rightarrow> World \<Rightarrow> 'j HttpResponse \<times> World)
     \<Rightarrow> World \<Rightarrow> Request \<Rightarrow> 'j Served" where
  "serve Getenv lib handler w req =
     (case Enforce Getenv lib w None req of
        Abort resp \<Rightarrow> \<lparr>response = resp, handler_invoked = False, world_after = w\<rparr>
      | Next ctx \<Rightarrow>
          (case handler ctx req w of
             (resp, w') \<Rightarrow> \<lparr>response = resp, handler_invoked = True, world_after = w'\<rparr>))"


section \<open>A worked example: scenarios A to C of the specification\<close>

text \<open>
  The configuration of the README's \<open>.env\<close> file, one consumer, and one payment request.
  The digests are the SHA-256 digests of the two request bodies.
\<close>

definition example_Getenv :: "string \<Rightarrow> string" where
  "example_Getenv name =
     (if name = ''IDEMPOTENCY_ENABLED'' then ''TRUE''
      else if name = ''IDEMPOTENCY_KEY_HEADER'' then ''Idempotency-Key''
      else if name = ''IDEMPOTENCY_PREFIX'' then ''idempotency_cache:''
      else if name = ''IDEMPOTENCY_TTL_HOURS'' then ''24''
      else [])"

definition example_key :: string where
  "example_key = ''6f1e2d3c-4b5a-4978-8c6d-5e4f3a2b1c0d''"

definition example_consumer :: string where
  "example_consumer = ''0b9d2c4e-7a1f-4e3b-9c5d-2f8a6b1e4d70''"

definition example_uuid :: string where
  "example_uuid = ''9c0e4f6a-2b7d-4135-a8e9-1d3c5b7f9a20''"

definition example_body :: string where
  \<open>example_body =
     ''{"type":"payment","amount":150000,"consumerId":"0b9d2c4e-7a1f-4e3b-9c5d-2f8a6b1e4d70"}''\<close>

definition example_body_other :: string where
  \<open>example_body_other =
     ''{"type":"payment","amount":170000,"consumerId":"0b9d2c4e-7a1f-4e3b-9c5d-2f8a6b1e4d70"}''\<close>

definition example_digest :: "8 word list" where
  "example_digest =
     [0xc5, 0x1b, 0x5a, 0xce, 0xd5, 0xbb, 0xb4, 0x0c, 0xa9, 0xbf, 0x07, 0x04, 0xb1, 0xbf, 0x71, 0xe3,
      0xd5, 0x28, 0x5d, 0xf4, 0x85, 0xcd, 0x87, 0xce, 0x40, 0x95, 0x84, 0xbb, 0x32, 0x4e, 0x00, 0x37]"

definition example_digest_other :: "8 word list" where
  "example_digest_other =
     [0x2f, 0x34, 0x83, 0xa3, 0x38, 0xbb, 0x9a, 0xa8, 0x30, 0xaf, 0xe8, 0x0d, 0x46, 0x8c, 0x0c, 0xa7,
      0x31, 0x63, 0x1e, 0x75, 0xa3, 0x48, 0x21, 0xe5, 0xdd, 0x0e, 0xa7, 0x09, 0x22, 0xa8, 0xff, 0x36]"

definition example_bodyHash :: string where
  "example_bodyHash = ''c51b5aced5bbb40ca9bf0704b1bf71e3d5285df485cd87ce409584bb324e0037''"

definition example_request :: "string \<Rightarrow> string \<Rightarrow> Request" where
  "example_request method body =
     \<lparr>Method = method,
      GetHeader = (\<lambda>name. if name = ''Idempotency-Key'' then example_key else []),
      GetRawData = Inr body\<rparr>"

text \<open>
  The lookup is served on 1 January 2026 at 00:00:00 UTC, and each later step of the
  request comes one millisecond after the one before.
\<close>

definition example_now :: int where
  "example_now = 1767225600 * 1000000000"

definition example_instant :: "int \<Rightarrow> int" where
  "example_instant n = example_now + n * 1000000"

definition example_transaction :: "rat \<Rightarrow> Transaction" where
  "example_transaction amount =
     \<lparr>ID = [], IdempotencyCacheKey = [], Type = ''payment'', Amount = amount, Status = [],
      ConsumerID = example_consumer, txn_Consumer = None,
      txn_CreatedAt = None, txn_UpdatedAt = None\<rparr>"

definition example_created :: Transaction where
  "example_created =
     \<lparr>ID = example_uuid, IdempotencyCacheKey = example_key, Type = ''payment'', Amount = 150000,
      Status = ''pending'', ConsumerID = example_consumer, txn_Consumer = None,
      txn_CreatedAt = Some (example_instant 1), txn_UpdatedAt = Some (example_instant 1)\<rparr>"

definition example_payload :: string where
  \<open>example_payload =
     ''{"id":"9c0e4f6a-2b7d-4135-a8e9-1d3c5b7f9a20","idempotencyCacheKey":"6f1e2d3c-4b5a-4978-8c6d-5e4f3a2b1c0d","type":"payment","amount":150000,"status":"pending","consumerId":"0b9d2c4e-7a1f-4e3b-9c5d-2f8a6b1e4d70","createdAt":"2026-01-01T00:00:00.001Z","updatedAt":"2026-01-01T00:00:00.001Z"}''\<close>

text \<open>A payload cut short, as no JSON decoder accepts it.\<close>

definition example_truncated :: string where
  \<open>example_truncated = ''{"id":"9c0e4f6a''\<close>

text \<open>The values \<open>json.Unmarshal\<close> stores into an \<open>any\<close>.\<close>

datatype json =
    JNull
  | JBool bool
  | JNumber rat
  | JString string
  | JArray "json list"
  | JObject "(string \<times> json) list"

definition example_payload_value :: json where
  "example_payload_value =
     JObject
       [(''id'', JString example_uuid),
        (''idempotencyCacheKey'', JString example_key),
        (''type'', JString ''payment''),
        (''amount'', JNumber 150000),
        (''status'', JString ''pending''),
        (''consumerId'', JString example_consumer),
        (''createdAt'', JString ''2026-01-01T00:00:00.001Z''),
        (''updatedAt'', JString ''2026-01-01T00:00:00.001Z'')]"

definition example_record :: "string \<Rightarrow> int \<Rightarrow> IdempotencyCache" where
  "example_record payload hours =
     \<lparr>Key = example_key, BodyHash = example_bodyHash, ResponsePayload = payload,
      CreatedAt = example_instant 2, UpdatedAt = example_instant 3,
      ExpiredAt = example_instant 2 + hours * Hour\<rparr>"

text \<open>The record as JSON text: quotes and backslashes inside a string are escaped.\<close>

definition json_escape :: "string \<Rightarrow> string" where
  "json_escape s = concat (map (\<lambda>c. if c = CHR 0x22 \<or> c = CHR 0x5C then [CHR 0x5C, c] else [c]) s)"

definition example_cached_json :: "string \<Rightarrow> string \<Rightarrow> string" where
  \<open>example_cached_json payload expiredAt =
     ''{"key":"6f1e2d3c-4b5a-4978-8c6d-5e4f3a2b1c0d","bodyHash":"c51b5aced5bbb40ca9bf0704b1bf71e3d5285df485cd87ce409584bb324e0037","responsePayload":"''
     @ json_escape payload
     @ ''","createdAt":"2026-01-01T00:00:00.002Z","updatedAt":"2026-01-01T00:00:00.003Z","expiredAt":"''
     @ expiredAt @ ''"}''\<close>

definition example_codec :: "(string \<times> IdempotencyCache) list" where
  "example_codec =
     [(example_cached_json example_payload ''2026-01-02T00:00:00.002Z'', example_record example_payload 24),
      (example_cached_json example_payload ''2026-01-01T01:00:00.002Z'', example_record example_payload 1),
      (example_cached_json example_truncated ''2026-01-02T00:00:00.002Z'', example_record example_truncated 24)]"

text \<open>
  The libraries on the inputs of the example: each function answers as the Go library does
  on the inputs listed, and with an error (or a zero digest) on every other input.
\<close>

definition example_lib :: "json Lib" where
  "example_lib =
     \<lparr>Sum256 = (\<lambda>b i. if b = example_body then example_digest ! i
                      else if b = example_body_other then example_digest_other ! i
                      else 0),
      Unmarshal_IdempotencyCache =
        (\<lambda>s. case map_of example_codec s of
                Some r \<Rightarrow> Inr r
              | None \<Rightarrow> Inl (Errorf ''json: input outside the example'')),
      Unmarshal_any =
        (\<lambda>s. if s = example_payload then Inr example_payload_value
             else Inl (Errorf ''unexpected end of JSON input'')),
      Marshal_IdempotencyCache =
        (\<lambda>r. case map_of (map (\<lambda>(s, r). (r, s)) example_codec) r of
                Some s \<Rightarrow> Inr s
              | None \<Rightarrow> Inl (Errorf ''json: input outside the example'')),
      Marshal_Transaction =
        (\<lambda>t. if t = example_created then Inr example_payload
             else Inl (Errorf ''json: input outside the example'')),
      BindJSON_Transaction =
        (\<lambda>b. if b = example_body then Inr (example_transaction 150000)
             else if b = example_body_other then Inr (example_transaction 170000)
             else Inl (Errorf ''json: input outside the example'')),
      Validate =
        (\<lambda>t. if ID t = [] \<and> IdempotencyCacheKey t \<noteq> [] \<and> Type t = ''payment'' \<and> Amount t \<noteq> 0
                \<and> ConsumerID t = example_consumer \<and> txn_Consumer t = None
             then None else Some (ValidationErrors ''validation: input outside the example''))\<rparr>"

text \<open>The stores before the first request, and a cache holding one entry.\<close>

definition example_redis :: "(string \<Rightarrow> RedisEntry option) \<Rightarrow> Redis" where
  "example_redis es = \<lparr>client = True, get_failure = None, set_failure = None, entries = es\<rparr>"

definition example_database :: Database where
  "example_database =
     \<lparr>consumers = [\<lparr>consumer_ID = example_consumer, consumer_Status = ''active''\<rparr>],
      transactions = [], idempotency_cache = []\<rparr>"

definition example_world :: World where
  "example_world =
     \<lparr>redis = example_redis Map.empty, postgres_up = True, postgres = example_database,
      instant_GET = example_instant 0, instant_insert_transaction = example_instant 1,
      clock = example_instant 2, instant_insert_record = example_instant 3,
      instant_SET = example_instant 4, gen_random_uuid = example_uuid\<rparr>"

definition example_entry :: "string \<Rightarrow> string \<Rightarrow> string \<Rightarrow> RedisEntry option" where
  "example_entry payload expiredAt =
     [''idempotency_cache:6f1e2d3c-4b5a-4978-8c6d-5e4f3a2b1c0d'' \<mapsto>
        \<lparr>entry_value = example_cached_json payload expiredAt,
         entry_expires = Some (example_instant 4 + 24 * Hour)\<rparr>]"

text \<open>
  The stores after scenario A has been served, and the same with the cached payload cut
  short.
\<close>

definition example_world_recorded :: World where
  "example_world_recorded =
     \<lparr>redis = example_redis (example_entry example_payload ''2026-01-02T00:00:00.002Z''),
      postgres_up = True,
      postgres = example_database
        \<lparr>transactions := [example_created],
         idempotency_cache := [example_record example_payload 24]\<rparr>,
      instant_GET = example_instant 0, instant_insert_transaction = example_instant 1,
      clock = example_instant 2, instant_insert_record = example_instant 3,
      instant_SET = example_instant 4, gen_random_uuid = example_uuid\<rparr>"

definition example_world_damaged :: World where
  "example_world_damaged =
     example_world_recorded
       \<lparr>redis := example_redis (example_entry example_truncated ''2026-01-02T00:00:00.002Z'')\<rparr>"


text \<open>The cache unreachable for reads after scenario A, and for writes before it.\<close>

definition example_world_outage :: World where
  "example_world_outage =
     example_world_recorded
       \<lparr>redis := (redis example_world_recorded)
          \<lparr>get_failure := Some (Errorf ''dial tcp 127.0.0.1:6379: connect: connection refused'')\<rparr>\<rparr>"

definition example_world_unwritable :: World where
  "example_world_unwritable =
     example_world
       \<lparr>redis := (redis example_world)
          \<lparr>set_failure := Some (Errorf ''dial tcp 127.0.0.1:6379: connect: connection refused'')\<rparr>\<rparr>"

text \<open>The request context the middleware hands on in scenario A.\<close>

definition example_ctx :: ctx where
  "example_ctx =
     Some \<lparr>meta_Key = example_key, meta_BodyHash = example_bodyHash,
           meta_ResponsePayload = [], meta_StatusCode = 0\<rparr>"

text \<open>The cache emptied after scenario A, the durable store kept.\<close>

definition example_world_evicted :: World where
  "example_world_evicted = example_world_recorded\<lparr>redis := example_redis Map.empty\<rparr>"

text \<open>The example configuration with one variable set differently.\<close>

definition example_Getenv_with :: "string \<Rightarrow> string \<Rightarrow> string \<Rightarrow> string" where
  "example_Getenv_with name v n = (if n = name then v else example_Getenv n)"

abbreviation example_handler :: "ctx \<Rightarrow> Request \<Rightarrow> World \<Rightarrow> json HttpResponse \<times> World" where
  "example_handler \<equiv> handler_CreateTransaction example_Getenv example_lib"

abbreviation example_served :: "World \<Rightarrow> Request \<Rightarrow> json Served" where
  "example_served \<equiv> serve example_Getenv example_lib example_handler"


section \<open>Auxiliary facts\<close>

subsection \<open>Hex encoding\<close>

lemma length_EncodeToString: "length (EncodeToString src) = 2 * length src"
  by (induction src) (simp_all add: EncodeToString_def)

lemma hextable_nth_mem: "n < 16 \<Longrightarrow> hextable ! n \<in> set hextable"
  by (rule nth_mem) (simp add: hextable_def)

lemma set_EncodeToString: "set (EncodeToString src) \<subseteq> set hextable"
proof -
  have "unat v div 16 < 16" for v :: "8 word"
  proof -
    have "unat v < 2 ^ LENGTH(8)" by (rule unsigned_less)
    then show ?thesis by simp
  qed
  then show ?thesis
    unfolding EncodeToString_def by (auto intro!: hextable_nth_mem)
qed

lemma length_slice_all: "length (slice_all h) = 32"
  by (simp add: slice_all_def)

lemma Hash256Bytes_nonempty: "body \<noteq> [] \<Longrightarrow> \<exists>h. Hash256Bytes sum256 body = Inr h"
  by (simp add: Hash256Bytes_def)

subsection \<open>The middleware, phase by phase\<close>

text \<open>A request that passes the validator and whose body hashes is decided by the lookup.\<close>

lemma Enforce_lookup:
  assumes "Getenv ''IDEMPOTENCY_ENABLED'' = ''TRUE''"
    and "Getenv ''IDEMPOTENCY_KEY_HEADER'' = hdr" and "hdr \<noteq> []"
    and "Getenv ''IDEMPOTENCY_PREFIX'' = prefix" and "prefix \<noteq> []"
    and "Method req = ''POST'' \<or> Method req = ''PUT'' \<or> Method req = ''DELETE''"
    and "GetHeader req hdr = key" and "key \<noteq> []"
    and "GetRawData req = Inr body"
    and "Hash256Bytes (Sum256 lib) body = Inr bodyHash"
  shows "Enforce Getenv lib w ctx0 req =
     (case GetJSON lib w (prefix @ key) of
        Inl err \<Rightarrow>
          if err \<noteq> RedisNil then
            Abort (InternalServerError ''Internal Server Error'' (Error err))
          else
            Next (InjectIdemCompetencyMeta ctx0
              \<lparr>meta_Key = key, meta_BodyHash = bodyHash,
               meta_ResponsePayload = [], meta_StatusCode = 0\<rparr>)
      | Inr cachedData \<Rightarrow>
          if BodyHash cachedData \<noteq> bodyHash then
            Abort (Conflict ''Conflict''
              ''Request with the same Idempotency-Key but different body has already been processed'')
          else if ResponsePayload cachedData \<noteq> [] then
            (case Unmarshal_any lib (ResponsePayload cachedData) of
               Inl err \<Rightarrow>
                 Abort (InternalServerError ''Internal Server Error''
                   ''Failed to unmarshal cached response payload'')
             | Inr respPayload \<Rightarrow>
                 Abort (Success ''Request already processed'' (Decoded respPayload)))
          else Abort (Success ''Request already processed'' NoData))"
  using assms unfolding Enforce_def Let_def by auto

lemma serve_Abort:
  "Enforce Getenv lib w None req = Abort resp \<Longrightarrow>
   serve Getenv lib handler w req = \<lparr>response = resp, handler_invoked = False, world_after = w\<rparr>"
  by (simp add: serve_def)

lemma serve_Next:
  "Enforce Getenv lib w None req = Next ctx \<Longrightarrow>
   serve Getenv lib handler w req =
     \<lparr>response = fst (handler ctx req w), handler_invoked = True,
      world_after = snd (handler ctx req w)\<rparr>"
  by (simp add: serve_def split: prod.splits)

subsection \<open>The record phase is all or nothing\<close>

lemma db_Transaction_Inl:
  "db_Transaction fc w = (Inl e, w') \<longleftrightarrow> (\<exists>tx. fc no_rows w = (Inl e, tx, w'))"
  by (auto simp: db_Transaction_def split: prod.splits sum.splits)

lemma db_Transaction_Inr:
  "db_Transaction fc w = (Inr v, w') \<longleftrightarrow>
     (\<exists>tx w1. fc no_rows w = (Inr v, tx, w1) \<and> w' = w1\<lparr>postgres := visible w1 tx\<rparr>)"
  by (auto simp: db_Transaction_def split: prod.splits sum.splits)

lemma CreateIdempotencyCache_error_world:
  "CreateIdempotencyCache Getenv lib Marshal ctx payload w = (Inl e, w') \<Longrightarrow> w' = w"
  unfolding CreateIdempotencyCache_def Let_def
  by (auto simp: db_Transaction_Inl split: if_splits option.splits sum.splits prod.splits)

lemma CreateTransaction_error_world:
  "CreateTransaction Getenv lib ctx t w = (Inl e, w') \<Longrightarrow> w' = w"
  unfolding CreateTransaction_def Let_def
  by (auto simp: db_Transaction_Inl dest: CreateIdempotencyCache_error_world
      split: if_splits option.splits sum.splits prod.splits)

subsection \<open>The example, evaluated\<close>

lemmas example_defs =
  example_Getenv_def example_key_def example_consumer_def example_uuid_def
  example_request_def example_now_def example_instant_def example_transaction_def
  example_created_def
  example_record_def example_redis_def example_database_def example_world_def
  example_entry_def example_world_recorded_def example_world_damaged_def

lemmas model_defs =
  ExtractIdemCompetencyMeta_def InjectIdemCompetencyMeta_def db_Transaction_def
  repo_GetIdempotencyCacheByKey_def repo_CreateIdempotencyCache_def repo_CreateTransaction_def
  GetConsumerByID_def visible_def no_rows_def Add_def ttl_hour_def IdempotencyCache_zero_def
  zero_time_def SetJSON_def GetJSON_def redis_Set_def redis_Get_def Hour_def
  ConsumerStatusActive_def TransactionStatusPending_def Let_def wrap64_def

lemma upt32:
  "[0..<32] = [0, 1, 2, 3, 4, 5, 6, 7, 8, 9, 10, 11, 12, 13, 14, 15, 16, 17, 18, 19, 20, 21,
     22, 23, 24, 25, 26, 27, 28, 29, 30, 31]"
  by (simp add: upt_rec)

lemma example_hash:
  "Hash256Bytes (Sum256 example_lib) example_body = Inr example_bodyHash"
  by (simp add: Hash256Bytes_def EncodeToString_def slice_all_def upt32 hextable_def
      example_lib_def example_body_def example_digest_def example_bodyHash_def)

lemma example_hash_other:
  "Hash256Bytes (Sum256 example_lib) example_body_other =
     Inr ''2f3483a338bb9aa830afe80d468c0ca731631e75a34821e5dd0ea70922a8ff36''"
  by (simp add: Hash256Bytes_def EncodeToString_def slice_all_def upt32 hextable_def
      example_lib_def example_body_def example_body_other_def example_digest_other_def)

lemma example_config:
  "example_Getenv ''IDEMPOTENCY_ENABLED'' = ''TRUE''"
  "example_Getenv ''IDEMPOTENCY_KEY_HEADER'' = ''Idempotency-Key''"
  "''Idempotency-Key'' \<noteq> []"
  "example_Getenv ''IDEMPOTENCY_PREFIX'' = ''idempotency_cache:''"
  "''idempotency_cache:'' \<noteq> []"
  by (simp_all add: example_Getenv_def)

lemma example_request_simps:
  "Method (example_request m b) = m"
  "GetHeader (example_request m b) ''Idempotency-Key'' = example_key"
  "GetRawData (example_request m b) = Inr b"
  "example_key \<noteq> []" "example_body \<noteq> []" "example_body_other \<noteq> []"
  by (simp_all add: example_request_def example_key_def example_body_def example_body_other_def)

lemma example_request_POST:
  "Method (example_request ''POST'' b) = ''POST'' \<or> Method (example_request ''POST'' b) = ''PUT'' \<or>
   Method (example_request ''POST'' b) = ''DELETE''"
  by (simp add: example_request_def)

lemmas example_lookup =
  example_config example_request_POST example_request_simps(2) example_request_simps(4)
  example_request_simps(3)

lemma example_GetJSON_recorded:
  "GetJSON example_lib example_world_recorded (''idempotency_cache:'' @ example_key) =
     Inr (example_record example_payload 24)"
  by (simp add: GetJSON_def redis_Get_def example_world_recorded_def example_redis_def
      example_entry_def example_key_def example_now_def example_instant_def Hour_def)
    (simp add: example_lib_def example_codec_def)

lemma example_GetJSON_damaged:
  "GetJSON example_lib example_world_damaged (''idempotency_cache:'' @ example_key) =
     Inr (example_record example_truncated 24)"
  by (simp add: GetJSON_def redis_Get_def example_world_damaged_def example_world_recorded_def
      example_redis_def example_entry_def example_key_def example_now_def example_instant_def Hour_def)
    (simp add: example_lib_def example_codec_def example_cached_json_def example_payload_def
      example_truncated_def json_escape_def)

lemma example_GetJSON_outage:
  "GetJSON example_lib example_world_outage (''idempotency_cache:'' @ example_key) =
     Inl (Errorf ''dial tcp 127.0.0.1:6379: connect: connection refused'')"
  by (simp add: GetJSON_def redis_Get_def example_world_outage_def example_world_recorded_def
      example_redis_def)


lemma example_Atoi: "Atoi ''24'' = Inr 24" "Atoi ''1'' = Inr 1"
  by (simp_all add: Atoi_def)

lemma example_Bind:
  "BindJSON_Transaction example_lib example_body = Inr (example_transaction 150000)"
  by (simp add: example_lib_def)

lemma example_Marshal_Transaction:
  "Marshal_Transaction example_lib example_created = Inr example_payload"
  by (simp add: example_lib_def)

text \<open>The record phase of scenario A, for a configured time-to-live of 24 hours and of 1 hour.\<close>

lemma example_CreateIdempotencyCache:
  "CreateIdempotencyCache example_Getenv example_lib (Marshal_Transaction example_lib)
     example_ctx example_created example_world =
   (Inr (example_record example_payload 24),
    example_world
      \<lparr>redis := example_redis (example_entry example_payload ''2026-01-02T00:00:00.002Z''),
       postgres := example_database
         \<lparr>idempotency_cache := [example_record example_payload 24]\<rparr>\<rparr>)"
  unfolding CreateIdempotencyCache_def Let_def
  by (simp add: model_defs example_defs example_ctx_def example_Atoi
      example_lib_def example_codec_def example_bodyHash_def)

lemma example_CreateIdempotencyCache_one_hour:
  "CreateIdempotencyCache (example_Getenv_with ''IDEMPOTENCY_TTL_HOURS'' ''1'') example_lib
     (Marshal_Transaction example_lib) example_ctx example_created example_world =
   (Inr (example_record example_payload 1),
    example_world
      \<lparr>redis := example_redis (example_entry example_payload ''2026-01-01T01:00:00.002Z''),
       postgres := example_database
         \<lparr>idempotency_cache := [example_record example_payload 1]\<rparr>\<rparr>)"
  unfolding CreateIdempotencyCache_def Let_def
  by (simp add: model_defs example_defs example_ctx_def example_Atoi example_Getenv_with_def
      example_lib_def example_codec_def example_bodyHash_def)

text \<open>Scenario A: the middleware hands the request on, and the handler records it.\<close>

lemma example_Enforce_first:
  "Enforce example_Getenv example_lib example_world None (example_request ''POST'' example_body) =
     Next example_ctx"
proof -
  have "GetJSON example_lib example_world (''idempotency_cache:'' @ example_key) = Inl RedisNil"
    by (simp add: GetJSON_def redis_Get_def example_world_def example_redis_def)
  then show ?thesis
    unfolding Enforce_lookup [OF example_lookup example_hash]
    by (simp add: InjectIdemCompetencyMeta_def example_ctx_def)
qed

lemma example_CreateTransaction:
  "CreateTransaction example_Getenv example_lib example_ctx (example_transaction 150000)
     example_world = (Inr example_created, example_world_recorded)"
  unfolding CreateTransaction_def CreateIdempotencyCache_def Let_def
  by (simp add: model_defs example_defs example_ctx_def example_Atoi
      example_lib_def example_codec_def example_bodyHash_def)

lemma scenario_A:
  "example_served example_world (example_request ''POST'' example_body) =
     \<lparr>response = Created ''Transaction created successfully'' (Entity example_created),
      handler_invoked = True, world_after = example_world_recorded\<rparr>"
  by (simp add: serve_Next [OF example_Enforce_first] handler_CreateTransaction_def
      example_request_simps example_Bind example_CreateTransaction)

text \<open>The same request when the cache refuses writes.\<close>

lemma example_Enforce_unwritable:
  "Enforce example_Getenv example_lib example_world_unwritable None
     (example_request ''POST'' example_body) = Next example_ctx"
proof -
  have "GetJSON example_lib example_world_unwritable (''idempotency_cache:'' @ example_key) =
      Inl RedisNil"
    by (simp add: GetJSON_def redis_Get_def example_world_unwritable_def example_world_def
        example_redis_def)
  then show ?thesis
    unfolding Enforce_lookup [OF example_lookup example_hash]
    by (simp add: InjectIdemCompetencyMeta_def example_ctx_def)
qed

lemma example_CreateTransaction_unwritable:
  "CreateTransaction example_Getenv example_lib example_ctx (example_transaction 150000)
     example_world_unwritable =
   (Inl (Wrap ''failed to set idempotency key in Redis''
      (Errorf ''dial tcp 127.0.0.1:6379: connect: connection refused'')),
    example_world_unwritable)"
  unfolding CreateTransaction_def CreateIdempotencyCache_def Let_def
  by (simp add: model_defs example_defs example_ctx_def example_Atoi example_world_unwritable_def
      example_lib_def example_codec_def example_bodyHash_def)

subsection \<open>What a successful record phase has done, and when it cannot succeed\<close>

lemma CreateIdempotencyCache_Inr:
  assumes "CreateIdempotencyCache Getenv lib Marshal ctx payload w = (Inr created, w')"
  shows "\<exists>meta ttl respStr data.
     ctx = Some meta \<and> Atoi (Getenv ''IDEMPOTENCY_TTL_HOURS'') = Inr ttl \<and>
     Marshal payload = Inr respStr \<and>
     created = \<lparr>Key = meta_Key meta, BodyHash = meta_BodyHash meta, ResponsePayload = respStr,
                 CreatedAt = (if clock w = zero_time then instant_insert_record w else clock w),
                 UpdatedAt = instant_insert_record w,
                 ExpiredAt = clock w + wrap64 (ttl * Hour)\<rparr> \<and>
     find (\<lambda>r. Key r = meta_Key meta) (idempotency_cache (postgres w)) = None \<and>
     Marshal_IdempotencyCache lib created = Inr data \<and>
     entries (redis w') (Getenv ''IDEMPOTENCY_PREFIX'' @ meta_Key meta) =
       Some \<lparr>entry_value = data, entry_expires = Some (instant_SET w + 24 * Hour)\<rparr> \<and>
     idempotency_cache (postgres w') = idempotency_cache (postgres w) @ [created] \<and>
     transactions (postgres w') = transactions (postgres w)"
  using assms
  unfolding CreateIdempotencyCache_def Let_def
  apply (simp add: db_Transaction_Inr split: if_splits option.splits sum.splits)
  apply (auto simp: ExtractIdemCompetencyMeta_def repo_GetIdempotencyCacheByKey_def
      repo_CreateIdempotencyCache_def visible_def no_rows_def SetJSON_def redis_Set_def Add_def
      ttl_hour_def Hour_def Let_def
      split: if_splits option.splits sum.splits prod.splits)
  done

lemma CreateIdempotencyCache_needs_cache:
  assumes "\<not> client (redis w) \<or> set_failure (redis w) \<noteq> None"
  shows "CreateIdempotencyCache Getenv lib Marshal ctx payload w \<noteq> (Inr created, w')"
  using assms unfolding CreateIdempotencyCache_def Let_def
  by (auto simp: db_Transaction_Inr SetJSON_def redis_Set_def
      split: if_splits option.splits sum.splits prod.splits)

lemma CreateIdempotencyCache_needs_fresh_key:
  assumes "ctx = Some meta"
    and "find (\<lambda>r. Key r = meta_Key meta) (idempotency_cache (postgres w)) = Some existing"
  shows "CreateIdempotencyCache Getenv lib Marshal ctx payload w \<noteq> (Inr created, w')"
  using CreateIdempotencyCache_Inr [of Getenv lib Marshal ctx payload w created w'] assms
  by auto

lemma CreateIdempotencyCache_fails:
  assumes "\<forall>created w'. CreateIdempotencyCache Getenv lib Marshal ctx payload w \<noteq> (Inr created, w')"
  shows "\<exists>e. CreateIdempotencyCache Getenv lib Marshal ctx payload w = (Inl e, w)"
proof (cases "CreateIdempotencyCache Getenv lib Marshal ctx payload w")
  case (Pair r w')
  with assms obtain e where "r = Inl e" by (cases r) auto
  with Pair show ?thesis
    using CreateIdempotencyCache_error_world [of Getenv lib Marshal ctx payload w e w'] by simp
qed

lemma CreateTransaction_fails:
  assumes "\<forall>p created w'.
     CreateIdempotencyCache Getenv lib (Marshal_Transaction lib) ctx p w \<noteq> (Inr created, w')"
  shows "\<exists>e. CreateTransaction Getenv lib ctx t w = (Inl e, w)"
proof (cases "CreateTransaction Getenv lib ctx t w")
  case (Pair r w')
  have "r \<noteq> Inr v" for v
    using Pair assms unfolding CreateTransaction_def Let_def
    by (auto simp: db_Transaction_Inr split: if_splits option.splits sum.splits prod.splits)
  then obtain e where "r = Inl e" by (cases r) auto
  with Pair show ?thesis
    using CreateTransaction_error_world [of Getenv lib ctx t w e w'] by simp
qed

lemma CreateIdempotencyCache_SET_refused:
  assumes "postgres_up w" and "ctx = Some meta" and "Marshal payload = Inr respStr"
    and "Atoi (Getenv ''IDEMPOTENCY_TTL_HOURS'') = Inr ttl"
    and "find (\<lambda>r. Key r = meta_Key meta) (idempotency_cache (postgres w)) = None"
    and "Marshal_IdempotencyCache lib
           \<lparr>Key = meta_Key meta, BodyHash = meta_BodyHash meta, ResponsePayload = respStr,
            CreatedAt = (if clock w = zero_time then instant_insert_record w else clock w),
            UpdatedAt = instant_insert_record w,
            ExpiredAt = clock w + wrap64 (ttl * Hour)\<rparr> = Inr cached"
    and "client (redis w)" and "set_failure (redis w) = Some err"
  shows "CreateIdempotencyCache Getenv lib Marshal ctx payload w =
           (Inl (Wrap ''failed to set idempotency key in Redis'' err), w)"
  using assms unfolding CreateIdempotencyCache_def Let_def
  by (auto simp: ExtractIdemCompetencyMeta_def db_Transaction_def repo_GetIdempotencyCacheByKey_def
      repo_CreateIdempotencyCache_def visible_def no_rows_def IdempotencyCache_zero_def Add_def
      SetJSON_def redis_Set_def Let_def)

section \<open>The fingerprint hasher\<close>

text \<open>
  C9. The hasher rejects the empty input with an error; every other input has a digest,
  which is 64 characters long and made of lower-case hexadecimal digits only; and the
  result depends on nothing but the bytes hashed.
\<close>

theorem Hash256Bytes_contract:
  "Hash256Bytes sum256 [] = Inl (Errorf ''input byte slice cannot be empty'') \<and>
   (b \<noteq> [] \<longrightarrow>
      (\<exists>d. Hash256Bytes sum256 b = Inr d \<and> length d = 64 \<and> set d \<subseteq> set hextable)) \<and>
   (b' = b \<longrightarrow> Hash256Bytes sum256 b' = Hash256Bytes sum256 b)"
  using set_EncodeToString
  by (simp add: Hash256Bytes_def length_EncodeToString length_slice_all)

theorem Hash256Bytes_contract_witness:
  "example_body \<noteq> [] \<and>
   (\<exists>d. Hash256Bytes (Sum256 example_lib) example_body = Inr d \<and> length d = 64 \<and>
        set d \<subseteq> set hextable) \<and>
   Hash256Bytes (Sum256 example_lib) [] = Inl (Errorf ''input byte slice cannot be empty'')"
  using Hash256Bytes_contract [of "Sum256 example_lib" example_body example_body]
  by (simp add: example_request_simps)


section \<open>The middleware\<close>

text \<open>
  C10. If any of the three configuration variables (enforcement flag, key-header name,
  cache-key prefix) is empty, the middleware aborts the request with 500 before any other
  rule, the switch-off rule included: the handler does not run and the stores are left
  as they were, whatever the request.
\<close>

theorem missing_configuration_aborts:
  assumes "Getenv ''IDEMPOTENCY_ENABLED'' = [] \<or> Getenv ''IDEMPOTENCY_KEY_HEADER'' = [] \<or>
           Getenv ''IDEMPOTENCY_PREFIX'' = []"
  shows "status (response (serve Getenv lib handler w req)) = 500 \<and>
         \<not> handler_invoked (serve Getenv lib handler w req) \<and>
         world_after (serve Getenv lib handler w req) = w"
proof -
  have "Enforce Getenv lib w None req =
      Abort (InternalServerError ''Internal Server Error''
        ''Idempotency enabled, key header, or prefix environment variables are not set'')"
    using assms unfolding Enforce_def Let_def by auto
  then show ?thesis
    by (simp add: serve_Abort InternalServerError_def)
qed

theorem missing_configuration_aborts_witness:
  "(example_Getenv(''IDEMPOTENCY_PREFIX'' := [])) ''IDEMPOTENCY_PREFIX'' = [] \<and>
   status (response (serve (example_Getenv(''IDEMPOTENCY_PREFIX'' := [])) example_lib
     example_handler example_world (example_request ''POST'' example_body))) = 500 \<and>
   \<not> handler_invoked (serve (example_Getenv(''IDEMPOTENCY_PREFIX'' := [])) example_lib
     example_handler example_world (example_request ''POST'' example_body)) \<and>
   world_after (serve (example_Getenv(''IDEMPOTENCY_PREFIX'' := [])) example_lib
     example_handler example_world (example_request ''POST'' example_body)) = example_world"
  using missing_configuration_aborts [of "example_Getenv(''IDEMPOTENCY_PREFIX'' := [])"
      example_lib example_handler example_world "example_request ''POST'' example_body"]
  by simp


text \<open>
  C7. With enforcement enabled (and the header name and prefix configured), the validator
  applies its rules in order: a method other than POST, PUT and DELETE is answered 405;
  otherwise an absent or empty key header is answered 400. In both cases the handler
  does not run and nothing is recorded.
\<close>

theorem validator_rules_in_order:
  assumes "Getenv ''IDEMPOTENCY_ENABLED'' = ''TRUE''"
    and "Getenv ''IDEMPOTENCY_KEY_HEADER'' \<noteq> []"
    and "Getenv ''IDEMPOTENCY_PREFIX'' \<noteq> []"
  shows "(Method req \<notin> {''POST'', ''PUT'', ''DELETE''} \<longrightarrow>
           status (response (serve Getenv lib handler w req)) = 405 \<and>
           \<not> handler_invoked (serve Getenv lib handler w req) \<and>
           world_after (serve Getenv lib handler w req) = w) \<and>
         (Method req \<in> {''POST'', ''PUT'', ''DELETE''} \<and>
          GetHeader req (Getenv ''IDEMPOTENCY_KEY_HEADER'') = [] \<longrightarrow>
           status (response (serve Getenv lib handler w req)) = 400 \<and>
           \<not> handler_invoked (serve Getenv lib handler w req) \<and>
           world_after (serve Getenv lib handler w req) = w)"
proof (intro conjI impI)
  assume m: "Method req \<notin> {''POST'', ''PUT'', ''DELETE''}"
  have "Enforce Getenv lib w None req =
      Abort (MethodNotAllowed ''Method Not Allowed''
        ''Idempotency middleware only supports POST, PUT, or DELETE methods'')"
    using assms m unfolding Enforce_def Let_def by auto
  then have s: "serve Getenv lib handler w req =
      \<lparr>response = MethodNotAllowed ''Method Not Allowed''
        ''Idempotency middleware only supports POST, PUT, or DELETE methods'',
       handler_invoked = False, world_after = w\<rparr>"
    by (rule serve_Abort)
  show "status (response (serve Getenv lib handler w req)) = 405"
    and "\<not> handler_invoked (serve Getenv lib handler w req)"
    and "world_after (serve Getenv lib handler w req) = w"
    by (simp_all add: s MethodNotAllowed_def)
next
  assume k: "Method req \<in> {''POST'', ''PUT'', ''DELETE''} \<and>
          GetHeader req (Getenv ''IDEMPOTENCY_KEY_HEADER'') = []"
  have "Enforce Getenv lib w None req =
      Abort (BadRequest ''Bad Request''
        (''Idempotency key header '' @ [CHR 0x27] @ Getenv ''IDEMPOTENCY_KEY_HEADER'' @ [CHR 0x27]
           @ '' is required''))"
    using assms k unfolding Enforce_def Let_def by auto
  then have s: "serve Getenv lib handler w req =
      \<lparr>response = BadRequest ''Bad Request''
        (''Idempotency key header '' @ [CHR 0x27] @ Getenv ''IDEMPOTENCY_KEY_HEADER'' @ [CHR 0x27]
           @ '' is required''),
       handler_invoked = False, world_after = w\<rparr>"
    by (rule serve_Abort)
  show "status (response (serve Getenv lib handler w req)) = 400"
    and "\<not> handler_invoked (serve Getenv lib handler w req)"
    and "world_after (serve Getenv lib handler w req) = w"
    by (simp_all add: s BadRequest_def)
qed

text \<open>A GET with a key, and scenario E: a POST without the key header.\<close>

theorem validator_rules_in_order_witness:
  "example_Getenv ''IDEMPOTENCY_ENABLED'' = ''TRUE'' \<and>
   example_Getenv ''IDEMPOTENCY_KEY_HEADER'' \<noteq> [] \<and>
   example_Getenv ''IDEMPOTENCY_PREFIX'' \<noteq> [] \<and>
   Method (example_request ''GET'' example_body) \<notin> {''POST'', ''PUT'', ''DELETE''} \<and>
   status (response (example_served example_world (example_request ''GET'' example_body))) = 405 \<and>
   \<not> handler_invoked (example_served example_world (example_request ''GET'' example_body)) \<and>
   world_after (example_served example_world (example_request ''GET'' example_body)) =
     example_world \<and>
   Method ((example_request ''POST'' example_body)\<lparr>GetHeader := \<lambda>name. []\<rparr>)
     \<in> {''POST'', ''PUT'', ''DELETE''} \<and>
   GetHeader ((example_request ''POST'' example_body)\<lparr>GetHeader := \<lambda>name. []\<rparr>)
     (example_Getenv ''IDEMPOTENCY_KEY_HEADER'') = [] \<and>
   status (response (example_served example_world
     ((example_request ''POST'' example_body)\<lparr>GetHeader := \<lambda>name. []\<rparr>))) = 400 \<and>
   \<not> handler_invoked (example_served example_world
     ((example_request ''POST'' example_body)\<lparr>GetHeader := \<lambda>name. []\<rparr>)) \<and>
   world_after (example_served example_world
     ((example_request ''POST'' example_body)\<lparr>GetHeader := \<lambda>name. []\<rparr>)) = example_world"
proof -
  have c: "example_Getenv ''IDEMPOTENCY_ENABLED'' = ''TRUE''"
    "example_Getenv ''IDEMPOTENCY_KEY_HEADER'' \<noteq> []"
    "example_Getenv ''IDEMPOTENCY_PREFIX'' \<noteq> []"
    by (simp_all add: example_Getenv_def)
  have g: "Method (example_request ''GET'' example_body) \<notin> {''POST'', ''PUT'', ''DELETE''}"
    by (simp add: example_request_def)
  have p: "Method ((example_request ''POST'' example_body)\<lparr>GetHeader := \<lambda>name. []\<rparr>)
        \<in> {''POST'', ''PUT'', ''DELETE''} \<and>
      GetHeader ((example_request ''POST'' example_body)\<lparr>GetHeader := \<lambda>name. []\<rparr>)
        (example_Getenv ''IDEMPOTENCY_KEY_HEADER'') = []"
    by (simp add: example_request_def)
  show ?thesis
    using c g p
      validator_rules_in_order [OF c, of "example_request ''GET'' example_body" example_lib
        example_handler example_world]
      validator_rules_in_order [OF c,
        of "(example_request ''POST'' example_body)\<lparr>GetHeader := \<lambda>name. []\<rparr>" example_lib
        example_handler example_world]
    by blast
qed

text \<open>
  C8. In the lookup phase, an error of the fast cache other than the key miss
  (\<open>redis.Nil\<close>) is fatal to the request: the middleware answers 500 with the error's
  text and aborts; the handler does not run and the stores are not touched.
\<close>

theorem lookup_outage_is_fatal:
  assumes "Getenv ''IDEMPOTENCY_ENABLED'' = ''TRUE''"
    and "Getenv ''IDEMPOTENCY_KEY_HEADER'' = hdr" and "hdr \<noteq> []"
    and "Getenv ''IDEMPOTENCY_PREFIX'' = prefix" and "prefix \<noteq> []"
    and "Method req = ''POST'' \<or> Method req = ''PUT'' \<or> Method req = ''DELETE''"
    and "GetHeader req hdr = key" and "key \<noteq> []"
    and "GetRawData req = Inr body" and "body \<noteq> []"
    and "GetJSON lib w (prefix @ key) = Inl err"
    and "err \<noteq> RedisNil"
  shows "status (response (serve Getenv lib handler w req)) = 500 \<and>
         error_text (response (serve Getenv lib handler w req)) = Error err \<and>
         \<not> handler_invoked (serve Getenv lib handler w req) \<and>
         world_after (serve Getenv lib handler w req) = w"
proof -
  obtain bodyHash where "Hash256Bytes (Sum256 lib) body = Inr bodyHash"
    using Hash256Bytes_nonempty [OF assms(10)] by blast
  then have "Enforce Getenv lib w None req =
      Abort (InternalServerError ''Internal Server Error'' (Error err))"
    using assms(11,12) by (simp add: Enforce_lookup [OF assms(1-9)])
  then show ?thesis
    by (simp add: serve_Abort InternalServerError_def)
qed

theorem lookup_outage_is_fatal_witness:
  "GetJSON example_lib example_world_outage (''idempotency_cache:'' @ example_key) =
     Inl (Errorf ''dial tcp 127.0.0.1:6379: connect: connection refused'') \<and>
   status (response (example_served example_world_outage
     (example_request ''POST'' example_body))) = 500 \<and>
   \<not> handler_invoked (example_served example_world_outage
     (example_request ''POST'' example_body)) \<and>
   world_after (example_served example_world_outage
     (example_request ''POST'' example_body)) = example_world_outage"
  using example_GetJSON_outage
    lookup_outage_is_fatal [OF example_lookup example_request_simps(5) example_GetJSON_outage,
      where handler = example_handler]
  by simp

text \<open>
  C2. A request whose key is found in the fast cache with a body hash different from the
  hash of its raw body is answered 409; the handler does not run, and the cache and the
  durable store (the idempotency record and the business entity) are left as they were.
\<close>

theorem conflict_on_different_body:
  assumes "Getenv ''IDEMPOTENCY_ENABLED'' = ''TRUE''"
    and "Getenv ''IDEMPOTENCY_KEY_HEADER'' = hdr" and "hdr \<noteq> []"
    and "Getenv ''IDEMPOTENCY_PREFIX'' = prefix" and "prefix \<noteq> []"
    and "Method req = ''POST'' \<or> Method req = ''PUT'' \<or> Method req = ''DELETE''"
    and "GetHeader req hdr = key" and "key \<noteq> []"
    and "GetRawData req = Inr body"
    and "Hash256Bytes (Sum256 lib) body = Inr bodyHash"
    and "GetJSON lib w (prefix @ key) = Inr cachedData"
    and "BodyHash cachedData \<noteq> bodyHash"
  shows "status (response (serve Getenv lib handler w req)) = 409 \<and>
         \<not> handler_invoked (serve Getenv lib handler w req) \<and>
         world_after (serve Getenv lib handler w req) = w"
proof -
  have "Enforce Getenv lib w None req =
      Abort (Conflict ''Conflict''
        ''Request with the same Idempotency-Key but different body has already been processed'')"
    using assms(11,12) by (simp add: Enforce_lookup [OF assms(1-10)])
  then show ?thesis
    by (simp add: serve_Abort Conflict_def)
qed

text \<open>Scenario B: the key of scenario A with the amount changed.\<close>

theorem conflict_on_different_body_witness:
  "GetJSON example_lib example_world_recorded (''idempotency_cache:'' @ example_key) =
     Inr (example_record example_payload 24) \<and>
   Hash256Bytes (Sum256 example_lib) example_body_other =
     Inr ''2f3483a338bb9aa830afe80d468c0ca731631e75a34821e5dd0ea70922a8ff36'' \<and>
   BodyHash (example_record example_payload 24) \<noteq>
     ''2f3483a338bb9aa830afe80d468c0ca731631e75a34821e5dd0ea70922a8ff36'' \<and>
   status (response (example_served example_world_recorded
     (example_request ''POST'' example_body_other))) = 409 \<and>
   \<not> handler_invoked (example_served example_world_recorded
     (example_request ''POST'' example_body_other)) \<and>
   world_after (example_served example_world_recorded
     (example_request ''POST'' example_body_other)) = example_world_recorded"
proof -
  have d: "BodyHash (example_record example_payload 24) \<noteq>
     ''2f3483a338bb9aa830afe80d468c0ca731631e75a34821e5dd0ea70922a8ff36''"
    by (simp add: example_record_def example_bodyHash_def)
  show ?thesis
    using d example_GetJSON_recorded example_hash_other
      conflict_on_different_body [OF example_lookup example_hash_other example_GetJSON_recorded d,
        where handler = example_handler]
    by simp
qed

text \<open>
  C1, as the code has it. A request whose key is found in the fast cache with a body hash
  equal to the hash of its raw body never reaches the handler and changes nothing. It is
  answered 200, "Request already processed", with no data when the stored payload is
  empty and with the deserialized payload when the stored payload deserializes; when the
  stored payload is not empty and does not deserialize, it is answered 500.
\<close>

theorem replay_of_matching_hit:
  assumes "Getenv ''IDEMPOTENCY_ENABLED'' = ''TRUE''"
    and "Getenv ''IDEMPOTENCY_KEY_HEADER'' = hdr" and "hdr \<noteq> []"
    and "Getenv ''IDEMPOTENCY_PREFIX'' = prefix" and "prefix \<noteq> []"
    and "Method req = ''POST'' \<or> Method req = ''PUT'' \<or> Method req = ''DELETE''"
    and "GetHeader req hdr = key" and "key \<noteq> []"
    and "GetRawData req = Inr body"
    and "Hash256Bytes (Sum256 lib) body = Inr bodyHash"
    and "GetJSON lib w (prefix @ key) = Inr cachedData"
    and "BodyHash cachedData = bodyHash"
  shows "\<not> handler_invoked (serve Getenv lib handler w req) \<and>
         world_after (serve Getenv lib handler w req) = w \<and>
         (ResponsePayload cachedData = [] \<longrightarrow>
            response (serve Getenv lib handler w req) =
              Success ''Request already processed'' NoData) \<and>
         (\<forall>v. ResponsePayload cachedData \<noteq> [] \<and>
              Unmarshal_any lib (ResponsePayload cachedData) = Inr v \<longrightarrow>
            response (serve Getenv lib handler w req) =
              Success ''Request already processed'' (Decoded v) \<and>
            status (response (serve Getenv lib handler w req)) = 200) \<and>
         (\<forall>e. ResponsePayload cachedData \<noteq> [] \<and>
              Unmarshal_any lib (ResponsePayload cachedData) = Inl e \<longrightarrow>
            status (response (serve Getenv lib handler w req)) = 500)"
proof -
  have "\<exists>resp. Enforce Getenv lib w None req = Abort resp \<and>
      (ResponsePayload cachedData = [] \<longrightarrow> resp = Success ''Request already processed'' NoData) \<and>
      (\<forall>v. ResponsePayload cachedData \<noteq> [] \<and>
              Unmarshal_any lib (ResponsePayload cachedData) = Inr v \<longrightarrow>
            resp = Success ''Request already processed'' (Decoded v) \<and> status resp = 200) \<and>
      (\<forall>e. ResponsePayload cachedData \<noteq> [] \<and>
              Unmarshal_any lib (ResponsePayload cachedData) = Inl e \<longrightarrow> status resp = 500)"
    using assms(11,12)
    by (auto simp: Enforce_lookup [OF assms(1-10)] Success_def InternalServerError_def
        split: sum.splits)
  then obtain resp where "Enforce Getenv lib w None req = Abort resp"
    and r: "ResponsePayload cachedData = [] \<longrightarrow> resp = Success ''Request already processed'' NoData"
      "\<forall>v. ResponsePayload cachedData \<noteq> [] \<and>
              Unmarshal_any lib (ResponsePayload cachedData) = Inr v \<longrightarrow>
            resp = Success ''Request already processed'' (Decoded v) \<and> status resp = 200"
      "\<forall>e. ResponsePayload cachedData \<noteq> [] \<and>
              Unmarshal_any lib (ResponsePayload cachedData) = Inl e \<longrightarrow> status resp = 500"
    by blast
  then have "serve Getenv lib handler w req =
      \<lparr>response = resp, handler_invoked = False, world_after = w\<rparr>"
    by (simp add: serve_Abort)
  with r show ?thesis by (simp add: Success_def)
qed

text \<open>Scenario C: the request of scenario A sent again is answered from the cache.\<close>

theorem replay_of_matching_hit_witness:
  "GetJSON example_lib example_world_recorded (''idempotency_cache:'' @ example_key) =
     Inr (example_record example_payload 24) \<and>
   Hash256Bytes (Sum256 example_lib) example_body =
     Inr (BodyHash (example_record example_payload 24)) \<and>
   Unmarshal_any example_lib (ResponsePayload (example_record example_payload 24)) =
     Inr example_payload_value \<and>
   response (example_served example_world_recorded (example_request ''POST'' example_body)) =
     Success ''Request already processed'' (Decoded example_payload_value) \<and>
   status (response (example_served example_world_recorded
     (example_request ''POST'' example_body))) = 200 \<and>
   \<not> handler_invoked (example_served example_world_recorded
     (example_request ''POST'' example_body)) \<and>
   world_after (example_served example_world_recorded (example_request ''POST'' example_body)) =
     example_world_recorded"
proof -
  have p: "ResponsePayload (example_record example_payload 24) \<noteq> [] \<and>
      Unmarshal_any example_lib (ResponsePayload (example_record example_payload 24)) =
        Inr example_payload_value"
    by (simp add: example_record_def example_lib_def example_payload_def)
  have h: "Hash256Bytes (Sum256 example_lib) example_body =
      Inr (BodyHash (example_record example_payload 24))"
    by (simp add: example_hash example_record_def)
  show ?thesis
    using p h example_GetJSON_recorded
      replay_of_matching_hit [OF example_lookup h example_GetJSON_recorded refl,
        where handler = example_handler]
    by (simp add: Success_def)
qed

text \<open>
  C1 as stated fails: the key is in the cache with the hash of the request's body, the
  cached payload has been cut short, and the answer is 500 instead of the stored response.
\<close>

theorem replay_fails_on_damaged_payload:
  "GetJSON example_lib example_world_damaged (''idempotency_cache:'' @ example_key) =
     Inr (example_record example_truncated 24) \<and>
   Hash256Bytes (Sum256 example_lib) example_body =
     Inr (BodyHash (example_record example_truncated 24)) \<and>
   response (example_served example_world_damaged (example_request ''POST'' example_body)) =
     InternalServerError ''Internal Server Error'' ''Failed to unmarshal cached response payload'' \<and>
   status (response (example_served example_world_damaged
     (example_request ''POST'' example_body))) \<noteq> 200"
proof -
  have h: "Hash256Bytes (Sum256 example_lib) example_body =
      Inr (BodyHash (example_record example_truncated 24))"
    by (simp add: example_hash example_record_def)
  have u: "ResponsePayload (example_record example_truncated 24) \<noteq> []"
    "Unmarshal_any example_lib (ResponsePayload (example_record example_truncated 24)) =
       Inl (Errorf ''unexpected end of JSON input'')"
    by (simp_all add: example_record_def example_lib_def example_truncated_def example_payload_def)
  have "Enforce example_Getenv example_lib example_world_damaged None
      (example_request ''POST'' example_body) =
      Abort (InternalServerError ''Internal Server Error''
        ''Failed to unmarshal cached response payload'')"
    unfolding Enforce_lookup [OF example_lookup h] example_GetJSON_damaged
    by (simp add: u)
  then show ?thesis
    using h example_GetJSON_damaged by (simp add: serve_Abort InternalServerError_def)
qed

text \<open>
  C6, as the code has it. When the three configuration variables are all set and the
  enforcement flag is not \<open>TRUE\<close>, every request, whatever its method, key and body,
  goes on to the handler with its context untouched and is served exactly as by the
  handler alone; the transaction handler then creates no idempotency record (and no
  entity): the stores are left as they were.
\<close>

theorem disabled_enforcement_bypasses:
  assumes "Getenv ''IDEMPOTENCY_ENABLED'' \<noteq> []"
    and "Getenv ''IDEMPOTENCY_ENABLED'' \<noteq> ''TRUE''"
    and "Getenv ''IDEMPOTENCY_KEY_HEADER'' \<noteq> []"
    and "Getenv ''IDEMPOTENCY_PREFIX'' \<noteq> []"
  shows "serve Getenv lib handler w req =
           \<lparr>response = fst (handler None req w), handler_invoked = True,
            world_after = snd (handler None req w)\<rparr> \<and>
         world_after (serve Getenv lib (handler_CreateTransaction Getenv lib) w req) = w"
proof -
  have n: "Enforce Getenv lib w None req = Next None"
    using assms unfolding Enforce_def Let_def by auto
  have "snd (handler_CreateTransaction Getenv lib None req w) = w"
    by (auto simp: handler_CreateTransaction_def CreateTransaction_def
        ExtractIdemCompetencyMeta_def split: sum.splits)
  then show ?thesis
    by (simp add: serve_Next [OF n])
qed

theorem disabled_enforcement_bypasses_witness:
  "example_Getenv_with ''IDEMPOTENCY_ENABLED'' ''FALSE'' ''IDEMPOTENCY_ENABLED'' = ''FALSE'' \<and>
   serve (example_Getenv_with ''IDEMPOTENCY_ENABLED'' ''FALSE'') example_lib
       (handler_CreateTransaction (example_Getenv_with ''IDEMPOTENCY_ENABLED'' ''FALSE'') example_lib)
       example_world (example_request ''GET'' []) =
     \<lparr>response = fst (handler_CreateTransaction (example_Getenv_with ''IDEMPOTENCY_ENABLED'' ''FALSE'')
         example_lib None (example_request ''GET'' []) example_world),
      handler_invoked = True,
      world_after = example_world\<rparr>"
proof -
  have c: "example_Getenv_with ''IDEMPOTENCY_ENABLED'' ''FALSE'' ''IDEMPOTENCY_ENABLED'' \<noteq> []"
    "example_Getenv_with ''IDEMPOTENCY_ENABLED'' ''FALSE'' ''IDEMPOTENCY_ENABLED'' \<noteq> ''TRUE''"
    "example_Getenv_with ''IDEMPOTENCY_ENABLED'' ''FALSE'' ''IDEMPOTENCY_KEY_HEADER'' \<noteq> []"
    "example_Getenv_with ''IDEMPOTENCY_ENABLED'' ''FALSE'' ''IDEMPOTENCY_PREFIX'' \<noteq> []"
    by (simp_all add: example_Getenv_with_def example_Getenv_def)
  note t = disabled_enforcement_bypasses [OF c, of example_lib
      "handler_CreateTransaction (example_Getenv_with ''IDEMPOTENCY_ENABLED'' ''FALSE'') example_lib"
      example_world "example_request ''GET'' []"]
  from t have "snd (handler_CreateTransaction (example_Getenv_with ''IDEMPOTENCY_ENABLED'' ''FALSE'')
         example_lib None (example_request ''GET'' []) example_world) = example_world"
    by (metis Served.select_convs(3))
  moreover have
    "example_Getenv_with ''IDEMPOTENCY_ENABLED'' ''FALSE'' ''IDEMPOTENCY_ENABLED'' = ''FALSE''"
    by (simp add: example_Getenv_with_def)
  ultimately show ?thesis
    using t by simp
qed

text \<open>
  C6 as stated fails: with the enforcement flag unset (hence not \<open>TRUE\<close>) the request is
  answered 500 and never reaches the handler.
\<close>

theorem unset_flag_does_not_bypass:
  "example_Getenv_with ''IDEMPOTENCY_ENABLED'' [] ''IDEMPOTENCY_ENABLED'' \<noteq> ''TRUE'' \<and>
   status (response (serve (example_Getenv_with ''IDEMPOTENCY_ENABLED'' []) example_lib
     example_handler example_world (example_request ''POST'' example_body))) = 500 \<and>
   \<not> handler_invoked (serve (example_Getenv_with ''IDEMPOTENCY_ENABLED'' []) example_lib
     example_handler example_world (example_request ''POST'' example_body))"
proof -
  have "Enforce (example_Getenv_with ''IDEMPOTENCY_ENABLED'' []) example_lib example_world None
      (example_request ''POST'' example_body) =
      Abort (InternalServerError ''Internal Server Error''
        ''Idempotency enabled, key header, or prefix environment variables are not set'')"
    by (simp add: Enforce_def example_Getenv_with_def)
  moreover have
    "example_Getenv_with ''IDEMPOTENCY_ENABLED'' [] ''IDEMPOTENCY_ENABLED'' \<noteq> ''TRUE''"
    by (simp add: example_Getenv_with_def)
  ultimately show ?thesis
    by (simp add: serve_Abort InternalServerError_def)
qed


section \<open>The record phase\<close>

text \<open>
  C3, as the code has it. In the record phase the record is written to the fast cache
  inside the durable transaction, before it commits. When the cache cannot be written
  (no client, or the server refuses the SET) the record phase fails: the error is
  returned, the transaction is rolled back, and neither the idempotency record nor the
  business entity is persisted; the stores are left as they were. When the refused SET
  is the only obstacle, the error returned is "failed to set idempotency key in Redis".
\<close>

theorem cache_write_failure_aborts_record_phase:
  assumes "\<not> client (redis w) \<or> set_failure (redis w) \<noteq> None"
  shows "(\<exists>e. CreateIdempotencyCache Getenv lib Marshal ctx payload w = (Inl e, w)) \<and>
         (\<exists>e. CreateTransaction Getenv lib ctx t w = (Inl e, w)) \<and>
         (postgres_up w \<and> ctx = Some meta \<and> Marshal payload = Inr respStr \<and>
          Atoi (Getenv ''IDEMPOTENCY_TTL_HOURS'') = Inr ttl \<and>
          find (\<lambda>r. Key r = meta_Key meta) (idempotency_cache (postgres w)) = None \<and>
          Marshal_IdempotencyCache lib
            \<lparr>Key = meta_Key meta, BodyHash = meta_BodyHash meta, ResponsePayload = respStr,
             CreatedAt = (if clock w = zero_time then instant_insert_record w else clock w),
             UpdatedAt = instant_insert_record w,
             ExpiredAt = clock w + wrap64 (ttl * Hour)\<rparr> = Inr cached \<and>
          client (redis w) \<and> set_failure (redis w) = Some err \<longrightarrow>
            CreateIdempotencyCache Getenv lib Marshal ctx payload w =
              (Inl (Wrap ''failed to set idempotency key in Redis'' err), w))"
proof (intro conjI impI)
  show "\<exists>e. CreateIdempotencyCache Getenv lib Marshal ctx payload w = (Inl e, w)"
    by (rule CreateIdempotencyCache_fails) (simp add: CreateIdempotencyCache_needs_cache [OF assms])
  show "\<exists>e. CreateTransaction Getenv lib ctx t w = (Inl e, w)"
    by (rule CreateTransaction_fails) (simp add: CreateIdempotencyCache_needs_cache [OF assms])
next
  assume "postgres_up w \<and> ctx = Some meta \<and> Marshal payload = Inr respStr \<and>
          Atoi (Getenv ''IDEMPOTENCY_TTL_HOURS'') = Inr ttl \<and>
          find (\<lambda>r. Key r = meta_Key meta) (idempotency_cache (postgres w)) = None \<and>
          Marshal_IdempotencyCache lib
            \<lparr>Key = meta_Key meta, BodyHash = meta_BodyHash meta, ResponsePayload = respStr,
             CreatedAt = (if clock w = zero_time then instant_insert_record w else clock w),
             UpdatedAt = instant_insert_record w,
             ExpiredAt = clock w + wrap64 (ttl * Hour)\<rparr> = Inr cached \<and>
          client (redis w) \<and> set_failure (redis w) = Some err"
  then show "CreateIdempotencyCache Getenv lib Marshal ctx payload w =
      (Inl (Wrap ''failed to set idempotency key in Redis'' err), w)"
    by (intro CreateIdempotencyCache_SET_refused
        [where meta = meta and respStr = respStr and ttl = ttl and cached = cached]) simp_all
qed

theorem cache_write_failure_aborts_record_phase_witness:
  "set_failure (redis example_world_unwritable) =
     Some (Errorf ''dial tcp 127.0.0.1:6379: connect: connection refused'') \<and>
   CreateIdempotencyCache example_Getenv example_lib (Marshal_Transaction example_lib)
       example_ctx example_created example_world_unwritable =
     (Inl (Wrap ''failed to set idempotency key in Redis''
        (Errorf ''dial tcp 127.0.0.1:6379: connect: connection refused'')),
      example_world_unwritable) \<and>
   (\<exists>e. CreateTransaction example_Getenv example_lib example_ctx (example_transaction 150000)
          example_world_unwritable = (Inl e, example_world_unwritable))"
proof -
  have h: "\<not> client (redis example_world_unwritable) \<or>
      set_failure (redis example_world_unwritable) \<noteq> None"
    by (simp add: example_world_unwritable_def)
  have p: "postgres_up example_world_unwritable \<and>
      example_ctx = Some \<lparr>meta_Key = example_key, meta_BodyHash = example_bodyHash,
           meta_ResponsePayload = [], meta_StatusCode = 0\<rparr> \<and>
      Marshal_Transaction example_lib example_created = Inr example_payload \<and>
      Atoi (example_Getenv ''IDEMPOTENCY_TTL_HOURS'') = Inr 24 \<and>
      find (\<lambda>r. Key r = meta_Key \<lparr>meta_Key = example_key, meta_BodyHash = example_bodyHash,
           meta_ResponsePayload = [], meta_StatusCode = 0\<rparr>)
        (idempotency_cache (postgres example_world_unwritable)) = None \<and>
      Marshal_IdempotencyCache example_lib
        \<lparr>Key = meta_Key \<lparr>meta_Key = example_key, meta_BodyHash = example_bodyHash,
           meta_ResponsePayload = [], meta_StatusCode = 0\<rparr>,
         BodyHash = meta_BodyHash \<lparr>meta_Key = example_key, meta_BodyHash = example_bodyHash,
           meta_ResponsePayload = [], meta_StatusCode = 0\<rparr>,
         ResponsePayload = example_payload,
         CreatedAt = (if clock example_world_unwritable = zero_time
                      then instant_insert_record example_world_unwritable
                      else clock example_world_unwritable),
         UpdatedAt = instant_insert_record example_world_unwritable,
         ExpiredAt = clock example_world_unwritable + wrap64 (24 * Hour)\<rparr> =
        Inr (example_cached_json example_payload ''2026-01-02T00:00:00.002Z'') \<and>
      client (redis example_world_unwritable) \<and>
      set_failure (redis example_world_unwritable) =
        Some (Errorf ''dial tcp 127.0.0.1:6379: connect: connection refused'')"
    by (simp add: example_world_unwritable_def example_world_def example_redis_def
        example_database_def example_ctx_def example_Marshal_Transaction example_Getenv_def
        example_Atoi example_lib_def example_codec_def example_record_def wrap64_def Hour_def
        example_instant_def example_now_def zero_time_def)
  show ?thesis
    using h p cache_write_failure_aborts_record_phase [OF h, of example_Getenv example_lib
        "Marshal_Transaction example_lib" example_ctx example_created
        "example_transaction 150000"
        "\<lparr>meta_Key = example_key, meta_BodyHash = example_bodyHash,
           meta_ResponsePayload = [], meta_StatusCode = 0\<rparr>"
        example_payload 24 "example_cached_json example_payload ''2026-01-02T00:00:00.002Z''"
        "Errorf ''dial tcp 127.0.0.1:6379: connect: connection refused''"]
    by blast
qed

text \<open>
  C3 as stated fails: scenario A with a cache that refuses the write is answered 500, and
  no durable record (and no entity) is left behind.
\<close>

theorem cache_write_failure_is_fatal:
  "set_failure (redis example_world_unwritable) =
     Some (Errorf ''dial tcp 127.0.0.1:6379: connect: connection refused'') \<and>
   status (response (example_served example_world_unwritable
     (example_request ''POST'' example_body))) = 500 \<and>
   handler_invoked (example_served example_world_unwritable
     (example_request ''POST'' example_body)) \<and>
   idempotency_cache (postgres (world_after (example_served example_world_unwritable
     (example_request ''POST'' example_body)))) = [] \<and>
   transactions (postgres (world_after (example_served example_world_unwritable
     (example_request ''POST'' example_body)))) = []"
  by (simp add: serve_Next [OF example_Enforce_unwritable] handler_CreateTransaction_def
      example_request_simps example_Bind example_CreateTransaction_unwritable
      InternalServerError_def)
    (simp add: example_world_unwritable_def example_world_def example_database_def
      example_redis_def)

text \<open>
  C4. In the record phase an existing durable record under the same key is looked for
  inside the transaction before the new one is created. If there is one, the whole unit
  of work fails with an error and nothing is persisted: no business entity, no second
  idempotency record, no cache entry. When the check itself is reached, the error is
  "idempotency key ... already exists".
\<close>

theorem existing_durable_record_aborts:
  assumes "ctx = Some meta"
    and "find (\<lambda>r. Key r = meta_Key meta) (idempotency_cache (postgres w)) = Some existing"
  shows "(\<exists>e. CreateIdempotencyCache Getenv lib Marshal ctx payload w = (Inl e, w)) \<and>
         (\<exists>e. CreateTransaction Getenv lib ctx t w = (Inl e, w)) \<and>
         (postgres_up w \<and> meta_Key meta \<noteq> [] \<and> (\<exists>s. Marshal payload = Inr s) \<and>
          (\<exists>n. Atoi (Getenv ''IDEMPOTENCY_TTL_HOURS'') = Inr n) \<longrightarrow>
            CreateIdempotencyCache Getenv lib Marshal ctx payload w =
              (Inl (Errorf (''idempotency key '' @ meta_Key meta @ '' already exists'')), w))"
proof (intro conjI impI)
  show "\<exists>e. CreateIdempotencyCache Getenv lib Marshal ctx payload w = (Inl e, w)"
    by (rule CreateIdempotencyCache_fails)
      (simp add: CreateIdempotencyCache_needs_fresh_key [OF assms])
  show "\<exists>e. CreateTransaction Getenv lib ctx t w = (Inl e, w)"
    by (rule CreateTransaction_fails)
      (simp add: CreateIdempotencyCache_needs_fresh_key [OF assms])
next
  assume a: "postgres_up w \<and> meta_Key meta \<noteq> [] \<and> (\<exists>s. Marshal payload = Inr s) \<and>
          (\<exists>n. Atoi (Getenv ''IDEMPOTENCY_TTL_HOURS'') = Inr n)"
  have k: "Key existing = meta_Key meta"
    using assms(2) by (auto simp: find_Some_iff)
  show "CreateIdempotencyCache Getenv lib Marshal ctx payload w =
      (Inl (Errorf (''idempotency key '' @ meta_Key meta @ '' already exists'')), w)"
    using a assms k unfolding CreateIdempotencyCache_def Let_def
    by (auto simp: ExtractIdemCompetencyMeta_def db_Transaction_def
        repo_GetIdempotencyCacheByKey_def visible_def no_rows_def)
qed

text \<open>The key of scenario A presented to the record phase again, the cache having lost it.\<close>

theorem existing_durable_record_aborts_witness:
  "find (\<lambda>r. Key r = example_key) (idempotency_cache (postgres example_world_evicted)) =
     Some (example_record example_payload 24) \<and>
   CreateIdempotencyCache example_Getenv example_lib (Marshal_Transaction example_lib)
       example_ctx example_created example_world_evicted =
     (Inl (Errorf (''idempotency key '' @ example_key @ '' already exists'')),
      example_world_evicted) \<and>
   (\<exists>e. CreateTransaction example_Getenv example_lib example_ctx (example_transaction 150000)
          example_world_evicted = (Inl e, example_world_evicted))"
proof -
  have f: "find (\<lambda>r. Key r = meta_Key \<lparr>meta_Key = example_key, meta_BodyHash = example_bodyHash,
           meta_ResponsePayload = [], meta_StatusCode = 0\<rparr>)
         (idempotency_cache (postgres example_world_evicted)) =
     Some (example_record example_payload 24)"
    by (simp add: example_world_evicted_def example_world_recorded_def example_record_def)
  have c: "postgres_up example_world_evicted \<and> example_key \<noteq> [] \<and>
      (\<exists>s. Marshal_Transaction example_lib example_created = Inr s) \<and>
      (\<exists>n. Atoi (example_Getenv ''IDEMPOTENCY_TTL_HOURS'') = Inr n)"
    by (simp add: example_world_evicted_def example_world_recorded_def example_request_simps
        example_Marshal_Transaction example_Getenv_def example_Atoi)
  show ?thesis
    using f c existing_durable_record_aborts [OF example_ctx_def f, of example_Getenv example_lib
        "Marshal_Transaction example_lib" example_created "example_transaction 150000"]
    by simp
qed

text \<open>
  C5, as the code has it. For every successfully recorded request the durable record
  expires at now plus the configured number of hours (\<open>IDEMPOTENCY_TTL_HOURS\<close>, in
  \<open>int64\<close> nanoseconds), where now is the reading of \<open>time.Now()\<close> taken before the
  transaction. The configured value is not applied to the fast cache: the entry, which
  holds the durable record as JSON, is given the constant relative lifetime \<open>ttl_hour\<close> of
  24 hours, which the cache counts from the instant at which it executes the SET. For a
  configured value from -2562047 to 2562047 (no overflow) the cache entry therefore
  expires no later than the durable record exactly when the time elapsed between the
  reading of now and the SET is at most the configured hours less 24 hours; and whenever
  the SET comes later than the reading of now and at most 24 hours are configured, the
  cache entry expires later than the durable record.
\<close>

theorem expiry_horizons:
  assumes "CreateIdempotencyCache Getenv lib Marshal ctx payload w = (Inr created, w')"
  shows "\<exists>meta ttl cached.
     ctx = Some meta \<and> Atoi (Getenv ''IDEMPOTENCY_TTL_HOURS'') = Inr ttl \<and>
     idempotency_cache (postgres w') = idempotency_cache (postgres w) @ [created] \<and>
     ExpiredAt created = clock w + wrap64 (ttl * Hour) \<and>
     Marshal_IdempotencyCache lib created = Inr cached \<and>
     entries (redis w') (Getenv ''IDEMPOTENCY_PREFIX'' @ meta_Key meta) =
       Some \<lparr>entry_value = cached, entry_expires = Some (instant_SET w + ttl_hour * Hour)\<rparr> \<and>
     (- 2562047 \<le> ttl \<and> ttl \<le> 2562047 \<longrightarrow>
        (instant_SET w + ttl_hour * Hour \<le> ExpiredAt created \<longleftrightarrow>
           instant_SET w - clock w \<le> (ttl - 24) * Hour) \<and>
        (clock w < instant_SET w \<and> ttl \<le> 24 \<longrightarrow>
           ExpiredAt created < instant_SET w + ttl_hour * Hour))"
proof -
  from CreateIdempotencyCache_Inr [OF assms] obtain meta ttl respStr cached where
    f: "ctx = Some meta" "Atoi (Getenv ''IDEMPOTENCY_TTL_HOURS'') = Inr ttl"
      "created = \<lparr>Key = meta_Key meta, BodyHash = meta_BodyHash meta, ResponsePayload = respStr,
                 CreatedAt = (if clock w = zero_time then instant_insert_record w else clock w),
                 UpdatedAt = instant_insert_record w,
                 ExpiredAt = clock w + wrap64 (ttl * Hour)\<rparr>"
      "Marshal_IdempotencyCache lib created = Inr cached"
      "entries (redis w') (Getenv ''IDEMPOTENCY_PREFIX'' @ meta_Key meta) =
         Some \<lparr>entry_value = cached, entry_expires = Some (instant_SET w + 24 * Hour)\<rparr>"
      "idempotency_cache (postgres w') = idempotency_cache (postgres w) @ [created]"
    by blast
  have e: "ExpiredAt created = clock w + wrap64 (ttl * Hour)"
    using f(3) by simp
  have r: "(instant_SET w + ttl_hour * Hour \<le> ExpiredAt created \<longleftrightarrow>
              instant_SET w - clock w \<le> (ttl - 24) * Hour) \<and>
           (clock w < instant_SET w \<and> ttl \<le> 24 \<longrightarrow>
              ExpiredAt created < instant_SET w + ttl_hour * Hour)"
    if "- 2562047 \<le> ttl \<and> ttl \<le> 2562047"
  proof -
    from that have "wrap64 (ttl * Hour) = ttl * Hour"
      by (simp add: wrap64_def Hour_def)
    with e show ?thesis
      by (simp add: ttl_hour_def Hour_def) arith
  qed
  from f(1,2,4,5,6) e r show ?thesis
    by (simp add: ttl_hour_def)
qed

text \<open>
  The record phase of scenario A, with 24 hours configured: the SET is executed two
  milliseconds after the reading of now, and the cache entry outlives the durable record.
\<close>

theorem expiry_horizons_witness:
  "CreateIdempotencyCache example_Getenv example_lib (Marshal_Transaction example_lib)
     example_ctx example_created example_world =
   (Inr (example_record example_payload 24),
    example_world
      \<lparr>redis := example_redis (example_entry example_payload ''2026-01-02T00:00:00.002Z''),
       postgres := example_database
         \<lparr>idempotency_cache := [example_record example_payload 24]\<rparr>\<rparr>) \<and>
   (\<exists>meta ttl cached.
     example_ctx = Some meta \<and> Atoi (example_Getenv ''IDEMPOTENCY_TTL_HOURS'') = Inr ttl \<and>
     ExpiredAt (example_record example_payload 24) = clock example_world + wrap64 (ttl * Hour) \<and>
     entries (example_redis (example_entry example_payload ''2026-01-02T00:00:00.002Z''))
         (example_Getenv ''IDEMPOTENCY_PREFIX'' @ meta_Key meta) =
       Some \<lparr>entry_value = cached,
             entry_expires = Some (instant_SET example_world + ttl_hour * Hour)\<rparr> \<and>
     - 2562047 \<le> ttl \<and> ttl \<le> 2562047 \<and>
     clock example_world < instant_SET example_world \<and> ttl \<le> 24 \<and>
     ExpiredAt (example_record example_payload 24) <
       instant_SET example_world + ttl_hour * Hour)"
proof -
  from expiry_horizons [OF example_CreateIdempotencyCache] obtain meta ttl cached where
    f: "example_ctx = Some meta" "Atoi (example_Getenv ''IDEMPOTENCY_TTL_HOURS'') = Inr ttl"
      "ExpiredAt (example_record example_payload 24) = clock example_world + wrap64 (ttl * Hour)"
      "entries (example_redis (example_entry example_payload ''2026-01-02T00:00:00.002Z''))
         (example_Getenv ''IDEMPOTENCY_PREFIX'' @ meta_Key meta) =
       Some \<lparr>entry_value = cached,
             entry_expires = Some (instant_SET example_world + ttl_hour * Hour)\<rparr>"
      "- 2562047 \<le> ttl \<and> ttl \<le> 2562047 \<longrightarrow>
        (clock example_world < instant_SET example_world \<and> ttl \<le> 24 \<longrightarrow>
           ExpiredAt (example_record example_payload 24) <
             instant_SET example_world + ttl_hour * Hour)"
    by auto
  from f(2) have t: "ttl = 24"
    by (simp add: example_Getenv_def example_Atoi)
  have c: "clock example_world < instant_SET example_world"
    by (simp add: example_world_def example_instant_def)
  from t c f(5) have
    "ExpiredAt (example_record example_payload 24) < instant_SET example_world + ttl_hour * Hour"
    by simp
  with f(1-4) t c example_CreateIdempotencyCache show ?thesis
    by auto
qed

text \<open>
  C5 as stated fails: with one hour configured, the durable record expires one hour after
  the reading of now, and the cache entry twenty-four hours after the SET, which is
  twenty-three hours (and two milliseconds) later.
\<close>

theorem cache_horizon_later_than_durable_expiry:
  "fst (CreateIdempotencyCache (example_Getenv_with ''IDEMPOTENCY_TTL_HOURS'' ''1'') example_lib
     (Marshal_Transaction example_lib) example_ctx example_created example_world) =
     Inr (example_record example_payload 1) \<and>
   idempotency_cache (postgres (snd (CreateIdempotencyCache
     (example_Getenv_with ''IDEMPOTENCY_TTL_HOURS'' ''1'') example_lib
     (Marshal_Transaction example_lib) example_ctx example_created example_world))) =
     [example_record example_payload 1] \<and>
   ExpiredAt (example_record example_payload 1) = clock example_world + 1 * Hour \<and>
   map_option entry_expires (entries (redis (snd (CreateIdempotencyCache
     (example_Getenv_with ''IDEMPOTENCY_TTL_HOURS'' ''1'') example_lib
     (Marshal_Transaction example_lib) example_ctx example_created example_world)))
     (''idempotency_cache:'' @ example_key)) =
     Some (Some (instant_SET example_world + 24 * Hour)) \<and>
   clock example_world + 1 * Hour < instant_SET example_world + 24 * Hour"
  by (simp add: example_CreateIdempotencyCache_one_hour)
    (simp add: example_record_def example_redis_def example_entry_def example_key_def Hour_def
      example_database_def example_world_def example_instant_def)

end
